theory Spec2Isabelle
  imports Main "HOL-Library.Sublist"
begin

section \<open>Chip orchestration: configuration, strings and the lifecycle order\<close>

text \<open>
  The module \<^verbatim>\<open>chip-orchestration.ts\<close> coordinates tasks through a fixed lifecycle
  while talking to a task store over HTTP. Strings are modelled as \<^typ>\<open>string\<close>; only
  equality, prefixes and concatenation are used, so the alphabet plays no role.
\<close>

type_synonym TaskStatus = string

text \<open>\<^verbatim>\<open>const STATUS_ORDER: TaskStatus[] = ['inbox', 'assigned', ...]\<close>\<close>

definition STATUS_ORDER :: "TaskStatus list" where
  "STATUS_ORDER = [''inbox'', ''assigned'', ''in_progress'', ''testing'', ''review'', ''done'']"

text \<open>
  The two module constants read from the environment. \<^verbatim>\<open>PROJECTS_BASE\<close> is
  \<^verbatim>\<open>process.env.MISSION_CONTROL_PROJECTS_BASE || getProjectsPath()\<close>; the helper lives in
  \<^verbatim>\<open>./config\<close>, so the resulting string is a parameter here. \<^verbatim>\<open>HOME\<close> is
  \<^verbatim>\<open>process.env.HOME\<close>, which may be unset.
\<close>

record config =
  PROJECTS_BASE :: string
  HOME :: "string option"

text \<open>\<^verbatim>\<open>process.env.HOME || '/tmp'\<close>: an unset or empty variable is falsy.\<close>

definition homeOrTmp :: "config \<Rightarrow> string" where
  "homeOrTmp cfg = (case HOME cfg of None \<Rightarrow> ''/tmp'' | Some h \<Rightarrow> if h = [] then ''/tmp'' else h)"

text \<open>\<^verbatim>\<open>Array.prototype.indexOf\<close>: the first position of the element, or \<open>-1\<close>.\<close>

fun indexOf :: "'a list \<Rightarrow> 'a \<Rightarrow> int" where
  "indexOf [] x = - 1"
| "indexOf (y # ys) x =
     (if y = x then 0 else (let i = indexOf ys x in if i = - 1 then - 1 else i + 1))"

text \<open>\<^verbatim>\<open>String.prototype.startsWith\<close>.\<close>

fun startsWith :: "string \<Rightarrow> string \<Rightarrow> bool" where
  "startsWith s [] = True"
| "startsWith [] (p # ps) = False"
| "startsWith (c # cs) (p # ps) = (c = p \<and> startsWith cs ps)"

text \<open>
  The replacement text of \<^verbatim>\<open>String.prototype.replace\<close> with a string replacement
  (GetSubstitution of the language standard) for a pattern without capture groups that
  matched \<open>matched\<close> at position 0 with \<open>after\<close> following it: \<^verbatim>\<open>$$\<close> is a dollar sign,
  \<^verbatim>\<open>$&\<close> the match, \<^verbatim>\<open>$`\<close> the (empty) text before the match, \<^verbatim>\<open>$'\<close> the text after
  it; every other character, and a dollar sign before anything else, is literal.
\<close>

fun getSubstitution :: "string \<Rightarrow> string \<Rightarrow> string \<Rightarrow> string" where
  "getSubstitution matched after [] = []"
| "getSubstitution matched after [c] = [c]"
| "getSubstitution matched after (c # d # rest) =
     (if c = CHR ''$'' \<and> d = CHR ''$'' then CHR ''$'' # getSubstitution matched after rest
      else if c = CHR ''$'' \<and> d = CHR ''&'' then matched @ getSubstitution matched after rest
      else if c = CHR ''$'' \<and> d = CHR 0x60 then getSubstitution matched after rest
      else if c = CHR ''$'' \<and> d = CHR 0x27 then after @ getSubstitution matched after rest
      else c # getSubstitution matched after (d # rest))"

text \<open>\<^verbatim>\<open>s.replace(/^~/, replacement)\<close>: only a tilde at position 0 matches.\<close>

definition replaceLeadingTilde :: "string \<Rightarrow> string \<Rightarrow> string" where
  "replaceLeadingTilde s replacement =
     (case s of
        [] \<Rightarrow> s
      | c # rest \<Rightarrow> if c = CHR ''~'' then getSubstitution ''~'' rest replacement @ rest else s)"

subsection \<open>Path sandbox\<close>

text \<open>
  \<^verbatim>\<open>
  function safePath(candidate: string, taskId: string): string {
    const resolved = candidate.replace(/^~/, process.env.HOME || '/tmp');
    const base = PROJECTS_BASE.replace(/^~/, process.env.HOME || '/tmp');
    if (resolved.startsWith(base)) { return resolved; }
    return `${base}/${taskId}/`;
  }\<close>
\<close>

definition resolvedBase :: "config \<Rightarrow> string" where
  "resolvedBase cfg = replaceLeadingTilde (PROJECTS_BASE cfg) (homeOrTmp cfg)"

definition safePath :: "config \<Rightarrow> string \<Rightarrow> string \<Rightarrow> string" where
  "safePath cfg candidate taskId =
     (let resolved = replaceLeadingTilde candidate (homeOrTmp cfg);
          base = resolvedBase cfg
      in if startsWith resolved base then resolved
         else base @ ''/'' @ taskId @ ''/'')"

subsection \<open>Forward-only transitions\<close>

text \<open>
  \<^verbatim>\<open>
  export function isValidTransition(from: TaskStatus, to: TaskStatus): boolean {
    const fromIndex = STATUS_ORDER.indexOf(from);
    const toIndex = STATUS_ORDER.indexOf(to);
    if (fromIndex === -1 || toIndex === -1) return false;
    return toIndex > fromIndex;
  }\<close>
\<close>

definition isValidTransition :: "TaskStatus \<Rightarrow> TaskStatus \<Rightarrow> bool" where
  "isValidTransition from to =
     (let fromIndex = indexOf STATUS_ORDER from;
          toIndex = indexOf STATUS_ORDER to
      in if fromIndex = - 1 \<or> toIndex = - 1 then False else toIndex > fromIndex)"

text \<open>
  The specification's reading of the lifecycle, written independently of the code: the
  position of each of the six statuses in the order inbox, assigned, in_progress, testing,
  review, done. Anything else has no position.
\<close>

definition lifecycle_index :: "TaskStatus \<Rightarrow> nat option" where
  "lifecycle_index s =
     (if s = ''inbox'' then Some 0
      else if s = ''assigned'' then Some 1
      else if s = ''in_progress'' then Some 2
      else if s = ''testing'' then Some 3
      else if s = ''review'' then Some 4
      else if s = ''done'' then Some 5
      else None)"

text \<open>\<open>to\<close> is strictly later than \<open>from\<close> in the lifecycle order.\<close>

definition strictly_later :: "TaskStatus \<Rightarrow> TaskStatus \<Rightarrow> bool" where
  "strictly_later from to =
     (case (lifecycle_index from, lifecycle_index to) of
        (Some i, Some j) \<Rightarrow> i < j
      | _ \<Rightarrow> False)"

section \<open>Entities and the world the orchestrator acts on\<close>

text \<open>
  Field names that clash between the entities, or with a constant of the logic, carry the
  entity's name: \<open>task_ident\<close> and \<open>session_ident\<close> are the \<^verbatim>\<open>id\<close> fields,
  \<open>task_status\<close> and \<open>session_status\<close> the \<^verbatim>\<open>status\<close> fields.
\<close>

text \<open>Modelled from the spec: the type \<^verbatim>\<open>Task\<close> of \<^verbatim>\<open>./types\<close>, with the fields of the
  data model (id, status, assigned_agent_id, metadata); of the metadata only the output
  directory is kept.\<close>

record Task =
  task_ident :: string
  task_status :: TaskStatus
  assigned_agent_id :: "string option"
  metadata_outputDir :: "string option"

text \<open>\<^verbatim>\<open>export interface SubAgentSession\<close>, as the module declares it.\<close>

record SubAgentSession =
  session_ident :: string
  agent_id :: "string option"
  openclaw_session_id :: string
  session_type :: string
  task_id :: string
  session_status :: string
  ended_at :: "string option"
  created_at :: string
  agent_name :: "string option"

text \<open>Modelled from the spec: the type \<^verbatim>\<open>TaskActivity\<close> of \<^verbatim>\<open>./types\<close>, with the fields
  of the data model that the module writes and reads.\<close>

record TaskActivity =
  activity_task_id :: string
  activity_type :: string
  activity_message :: string
  activity_agent_id :: "string option"
  activity_metadata :: "(string \<times> string) list"

text \<open>Modelled from the spec: the type \<^verbatim>\<open>TaskDeliverable\<close> of \<^verbatim>\<open>./types\<close>, with the
  fields of the data model.\<close>

record TaskDeliverable =
  deliverable_task_id :: string
  deliverable_type :: string
  title :: string
  path :: "string option"
  description :: "string option"

datatype http_method = GET | POST | PATCH | DELETE

text \<open>
  Every \<^verbatim>\<open>throw new Error(...)\<close> of the module is a value. \<open>HttpError m p c\<close> is the
  error of the \<^verbatim>\<open>api*\<close> helpers, \<^verbatim>\<open>`${m} ${p} failed (${c}): ...`\<close>;
  \<open>InvalidTransition from to\<close> is \<^verbatim>\<open>`Invalid status transition: ${from} -> ${to}. Only
  forward transitions allowed.`\<close> (the source has the arrow U+2192 where \<^verbatim>\<open>->\<close> stands
  here); \<open>CannotStartWork s\<close> is \<^verbatim>\<open>`Cannot start work: task is
  in '${s}', expected 'assigned'.`\<close>; \<open>PreconditionFailed\<close> is \<^verbatim>\<open>'Cannot move to review:
  no deliverables registered.'\<close>.
\<close>

datatype error =
    HttpError http_method string nat
  | InvalidTransition TaskStatus TaskStatus
  | CannotStartWork TaskStatus
  | PreconditionFailed

text \<open>
  What the module writes to the console: \<^verbatim>\<open>console.log\<close> of a reused session,
  \<^verbatim>\<open>console.warn\<close> of a deliverable path outside the base, and the three
  \<^verbatim>\<open>console.error\<close> calls of the swallowed failures (each with the task id).
\<close>

datatype diagnostic =
    LogReusing string
  | WarnOutsideBase string
  | ErrorLogActivity string error
  | ErrorRegisterDeliverable string error
  | ErrorFetchDeliverables string error

text \<open>
  The world is the content of the task store, the environment's behaviour and what the
  module has emitted so far. \<open>faults k\<close> says that the \<open>k\<close>-th request ever issued (counted
  from 0) is answered with a 5xx; \<open>clock k\<close> is the time at that moment; \<open>requests\<close> logs
  every request in the order of issue. \<open>sessions\<close> is kept newest first, the order in which
  the store lists them. \<open>enforces_unique\<close> says whether the store itself returns an existing
  active session on a POST instead of creating a second one.
\<close>

record world =
  tasks :: "Task list"
  sessions :: "SubAgentSession list"
  activities :: "TaskActivity list"
  deliverables :: "TaskDeliverable list"
  master_agents :: "string list"
  enforces_unique :: bool
  faults :: "nat \<Rightarrow> bool"
  clock :: "nat \<Rightarrow> string"
  fresh_id :: "nat \<Rightarrow> string"
  requests :: "(http_method \<times> string) list"
  console :: "diagnostic list"

subsection \<open>The store's handlers\<close>

text \<open>
  The task store is an external collaborator reached over HTTP; its routes are not part of
  the module. A handler answers with \<open>Inl code\<close> (a response that is not ok) or
  \<open>Inr body\<close>.
\<close>

text \<open>Modelled from the spec: the route \<^verbatim>\<open>GET /tasks/{id}\<close> of the task store, which
  returns the task; a missing task is NotFound.\<close>

definition store_get_task :: "string \<Rightarrow> world \<Rightarrow> (nat + Task) \<times> world" where
  "store_get_task tid w =
     (case find (\<lambda>t. task_ident t = tid) (tasks w) of
        None \<Rightarrow> (Inl 404, w)
      | Some t \<Rightarrow> (Inr t, w))"

text \<open>Modelled from the spec: master approval of a transition, granted when the request
  names an updating agent that is a master agent.\<close>

definition master_approved :: "string option \<Rightarrow> world \<Rightarrow> bool" where
  "master_approved agentId w =
     (case agentId of None \<Rightarrow> False | Some a \<Rightarrow> a \<in> set (master_agents w))"

text \<open>Modelled from the spec: the route \<^verbatim>\<open>PATCH /tasks/{id} {status?, updated_by_agent_id?}\<close>
  of the task store. It rejects a status outside the lifecycle, any change of a task that is
  done, a backward transition (400) and a transition to done without master approval;
  otherwise it stores the status and returns the task.\<close>

definition store_patch_task ::
  "string \<Rightarrow> TaskStatus \<Rightarrow> string option \<Rightarrow> world \<Rightarrow> (nat + Task) \<times> world" where
  "store_patch_task tid newStatus agentId w =
     (case find (\<lambda>t. task_ident t = tid) (tasks w) of
        None \<Rightarrow> (Inl 404, w)
      | Some t \<Rightarrow>
          if lifecycle_index newStatus = None then (Inl 400, w)
          else if task_status t = ''done'' then (Inl 400, w)
          else if strictly_later newStatus (task_status t) then (Inl 400, w)
          else if newStatus = ''done'' \<and> \<not> master_approved agentId w then (Inl 403, w)
          else (Inr (t\<lparr>task_status := newStatus\<rparr>),
                w\<lparr>tasks := map (\<lambda>x. if task_ident x = tid then x\<lparr>task_status := newStatus\<rparr> else x)
                              (tasks w)\<rparr>))"

text \<open>Modelled from the spec: the route \<^verbatim>\<open>GET /tasks/{id}/subagent\<close>, the sessions of the
  task.\<close>

definition store_get_sessions :: "string \<Rightarrow> world \<Rightarrow> (nat + SubAgentSession list) \<times> world" where
  "store_get_sessions tid w = (Inr (filter (\<lambda>s. task_id s = tid) (sessions w)), w)"

text \<open>Modelled from the spec: the route \<^verbatim>\<open>POST /tasks/{id}/subagent\<close>. It creates an
  active session for the task; a store that enforces uniqueness returns an existing active
  session with the reused flag instead.\<close>

definition store_post_session ::
  "string \<Rightarrow> string \<Rightarrow> string option \<Rightarrow> world \<Rightarrow> (nat + SubAgentSession \<times> bool) \<times> world" where
  "store_post_session tid sid name w =
     (case filter (\<lambda>s. task_id s = tid \<and> session_status s = ''active'') (sessions w) of
        a # _ \<Rightarrow>
          if enforces_unique w then (Inr (a, True), w)
          else (let s = \<lparr>session_ident = fresh_id w (length (requests w)), agent_id = None,
                         openclaw_session_id = sid, session_type = ''subagent'', task_id = tid,
                         session_status = ''active'', ended_at = None,
                         created_at = clock w (length (requests w)), agent_name = name\<rparr>
                in (Inr (s, False), w\<lparr>sessions := s # sessions w\<rparr>))
      | [] \<Rightarrow>
          (let s = \<lparr>session_ident = fresh_id w (length (requests w)), agent_id = None,
                    openclaw_session_id = sid, session_type = ''subagent'', task_id = tid,
                    session_status = ''active'', ended_at = None,
                    created_at = clock w (length (requests w)), agent_name = name\<rparr>
           in (Inr (s, False), w\<lparr>sessions := s # sessions w\<rparr>)))"

text \<open>Modelled from the spec: the route \<^verbatim>\<open>POST /tasks/{id}/activities\<close>, an append to
  the activity log.\<close>

definition store_post_activity ::
  "string \<Rightarrow> string \<Rightarrow> string \<Rightarrow> string option \<Rightarrow> (string \<times> string) list \<Rightarrow> world
     \<Rightarrow> (nat + TaskActivity) \<times> world" where
  "store_post_activity tid atype msg agentId meta w =
     (let a = \<lparr>activity_task_id = tid, activity_type = atype, activity_message = msg,
                activity_agent_id = agentId, activity_metadata = meta\<rparr>
      in (Inr a, w\<lparr>activities := activities w @ [a]\<rparr>))"

text \<open>Modelled from the spec: the route \<^verbatim>\<open>GET /tasks/{id}/activities\<close>.\<close>

definition store_get_activities :: "string \<Rightarrow> world \<Rightarrow> (nat + TaskActivity list) \<times> world" where
  "store_get_activities tid w = (Inr (filter (\<lambda>a. activity_task_id a = tid) (activities w)), w)"

text \<open>Modelled from the spec: the route \<^verbatim>\<open>POST /tasks/{id}/deliverables\<close>, which
  registers the deliverable.\<close>

definition store_post_deliverable ::
  "string \<Rightarrow> string \<Rightarrow> string \<Rightarrow> string option \<Rightarrow> string option \<Rightarrow> world
     \<Rightarrow> (nat + TaskDeliverable) \<times> world" where
  "store_post_deliverable tid dtype ttl pth descr w =
     (let d = \<lparr>deliverable_task_id = tid, deliverable_type = dtype, title = ttl, path = pth,
                description = descr\<rparr>
      in (Inr d, w\<lparr>deliverables := deliverables w @ [d]\<rparr>))"

text \<open>Modelled from the spec: the route \<^verbatim>\<open>GET /tasks/{id}/deliverables\<close>.\<close>

definition store_get_deliverables :: "string \<Rightarrow> world \<Rightarrow> (nat + TaskDeliverable list) \<times> world" where
  "store_get_deliverables tid w =
     (Inr (filter (\<lambda>d. deliverable_task_id d = tid) (deliverables w)), w)"

text \<open>Modelled from the spec: the route \<^verbatim>\<open>PATCH /openclaw-sessions/{id} {status, ended_at}\<close>,
  which completes a session. The id is the session id the orchestrator holds, the external
  one; an unknown id is NotFound.\<close>

definition store_patch_session ::
  "string \<Rightarrow> string \<Rightarrow> string \<Rightarrow> world \<Rightarrow> (nat + unit) \<times> world" where
  "store_patch_session sid newStatus endedAt w =
     (case find (\<lambda>s. openclaw_session_id s = sid) (sessions w) of
        None \<Rightarrow> (Inl 404, w)
      | Some _ \<Rightarrow>
          (Inr (),
           w\<lparr>sessions := map (\<lambda>s. if openclaw_session_id s = sid
                                      then s\<lparr>session_status := newStatus, ended_at := Some endedAt\<rparr>
                                      else s) (sessions w)\<rparr>))"


subsection \<open>The HTTP helpers\<close>

text \<open>
  \<^verbatim>\<open>apiGet\<close>, \<^verbatim>\<open>apiPost\<close>, \<^verbatim>\<open>apiPatch\<close> and \<^verbatim>\<open>apiDelete\<close> share one shape: issue the
  request, throw if the response is not ok, return the body otherwise. The request is logged;
  a faulted request never reaches its handler.
\<close>

definition api ::
  "http_method \<Rightarrow> string \<Rightarrow> (world \<Rightarrow> (nat + 'a) \<times> world) \<Rightarrow> world \<Rightarrow> (error + 'a) \<times> world" where
  "api m p handler w =
     (let w1 = w\<lparr>requests := requests w @ [(m, p)]\<rparr>
      in if faults w (length (requests w)) then (Inl (HttpError m p 500), w1)
         else (case handler w1 of
                 (Inl code, w2) \<Rightarrow> (Inl (HttpError m p code), w2)
               | (Inr body, w2) \<Rightarrow> (Inr body, w2)))"

definition apiGet :: "string \<Rightarrow> (world \<Rightarrow> (nat + 'a) \<times> world) \<Rightarrow> world \<Rightarrow> (error + 'a) \<times> world" where
  "apiGet = api GET"

definition apiPost :: "string \<Rightarrow> (world \<Rightarrow> (nat + 'a) \<times> world) \<Rightarrow> world \<Rightarrow> (error + 'a) \<times> world" where
  "apiPost = api POST"

definition apiPatch :: "string \<Rightarrow> (world \<Rightarrow> (nat + 'a) \<times> world) \<Rightarrow> world \<Rightarrow> (error + 'a) \<times> world" where
  "apiPatch = api PATCH"

definition apiDelete :: "string \<Rightarrow> (world \<Rightarrow> (nat + 'a) \<times> world) \<Rightarrow> world \<Rightarrow> (error + 'a) \<times> world" where
  "apiDelete = api DELETE"

text \<open>The paths of the module's template strings.\<close>

definition taskUrl :: "string \<Rightarrow> string" where
  "taskUrl taskId = ''/api/tasks/'' @ taskId"

definition subagentUrl :: "string \<Rightarrow> string" where
  "subagentUrl taskId = ''/api/tasks/'' @ taskId @ ''/subagent''"

definition activitiesUrl :: "string \<Rightarrow> string" where
  "activitiesUrl taskId = ''/api/tasks/'' @ taskId @ ''/activities''"

definition deliverablesUrl :: "string \<Rightarrow> string" where
  "deliverablesUrl taskId = ''/api/tasks/'' @ taskId @ ''/deliverables''"

definition sessionUrl :: "string \<Rightarrow> string" where
  "sessionUrl sessionId = ''/api/openclaw/sessions/'' @ sessionId"

text \<open>The requests the module makes, each path with the handler that serves it.\<close>

definition getTask :: "string \<Rightarrow> world \<Rightarrow> (error + Task) \<times> world" where
  "getTask taskId = apiGet (taskUrl taskId) (store_get_task taskId)"

definition getSessions :: "string \<Rightarrow> world \<Rightarrow> (error + SubAgentSession list) \<times> world" where
  "getSessions taskId = apiGet (subagentUrl taskId) (store_get_sessions taskId)"

definition getActivities :: "string \<Rightarrow> world \<Rightarrow> (error + TaskActivity list) \<times> world" where
  "getActivities taskId =
     apiGet (activitiesUrl taskId) (store_get_activities taskId)"

text \<open>\<^verbatim>\<open>if (x)\<close> on an optional string: undefined and the empty string are falsy.\<close>

definition truthy :: "string option \<Rightarrow> string option" where
  "truthy x = (case x of None \<Rightarrow> None | Some s \<Rightarrow> if s = [] then None else Some s)"

section \<open>The orchestration module\<close>

text \<open>
  Each exported function takes the world and returns its result, \<open>Inl\<close> for a rejected
  promise, with the world it leaves behind. Parameter objects are passed field by field.
  Where the source starts several requests before awaiting them (\<^verbatim>\<open>Promise.all\<close>), the
  requests are issued in the order in which the source creates the promises, what each
  callee does before its request happens at once, the store serves the requests and the
  answers arrive in the order of issue, all of them take effect, and the result is the
  rejection if one of them rejects.
\<close>

subsection \<open>Activity and deliverable recorder\<close>

text \<open>
  \<^verbatim>\<open>
  export async function logActivity(params: LogActivityParams): Promise<void> {
    try {
      await apiPost(`/api/tasks/${params.taskId}/activities`, { ... });
    } catch (error) {
      console.error(`Failed to log activity for task ${params.taskId}:`, error);
    }
  }\<close>
\<close>

definition logActivity ::
  "string \<Rightarrow> string \<Rightarrow> string \<Rightarrow> string option \<Rightarrow> (string \<times> string) list \<Rightarrow> world
     \<Rightarrow> (error + unit) \<times> world" where
  "logActivity taskId activityType message agentId metadata w =
     (case apiPost (activitiesUrl taskId)
             (store_post_activity taskId activityType message agentId metadata) w of
        (Inl e, w1) \<Rightarrow> (Inr (), w1\<lparr>console := console w1 @ [ErrorLogActivity taskId e]\<rparr>)
      | (Inr _, w1) \<Rightarrow> (Inr (), w1))"

text \<open>
  \<^verbatim>\<open>
  export async function logDeliverable(params: LogDeliverableParams): Promise<void> {
    if (params.path && params.deliverableType === 'file') {
      const resolvedPath = params.path.replace(/^~/, process.env.HOME || '/tmp');
      const resolvedBase = PROJECTS_BASE.replace(/^~/, process.env.HOME || '/tmp');
      if (!resolvedPath.startsWith(resolvedBase) && !resolvedPath.startsWith('/')) {
        console.warn(`Deliverable path "${params.path}" is outside PROJECTS_BASE ...`);
      }
    }
    try {
      await apiPost(`/api/tasks/${params.taskId}/deliverables`, { ... });
    } catch (error) {
      console.error(`Failed to register deliverable for task ${params.taskId}:`, error);
    }
  }\<close>
\<close>

definition outsideBaseWarning :: "config \<Rightarrow> string \<Rightarrow> string option \<Rightarrow> diagnostic list" where
  "outsideBaseWarning cfg deliverableType pth =
     (case truthy pth of
        None \<Rightarrow> []
      | Some p \<Rightarrow>
          if deliverableType = ''file'' then
            (let resolvedPath = replaceLeadingTilde p (homeOrTmp cfg);
                 resolvedBase = replaceLeadingTilde (PROJECTS_BASE cfg) (homeOrTmp cfg)
             in if \<not> startsWith resolvedPath resolvedBase \<and> \<not> startsWith resolvedPath ''/''
                then [WarnOutsideBase p] else [])
          else [])"

text \<open>
  The function in two parts, split where it first awaits: the check of the path, which runs
  as soon as the function is called, and the registration request with its
  \<^verbatim>\<open>try/catch\<close>, whose \<^verbatim>\<open>console.error\<close> runs once the store has answered.
\<close>

definition registerDeliverable ::
  "string \<Rightarrow> string \<Rightarrow> string \<Rightarrow> string option \<Rightarrow> string option \<Rightarrow> world
     \<Rightarrow> (error + unit) \<times> world" where
  "registerDeliverable taskId deliverableType ttl pth descr w =
     (case apiPost (deliverablesUrl taskId)
             (store_post_deliverable taskId deliverableType ttl pth descr) w of
        (Inl e, w1) \<Rightarrow> (Inr (), w1\<lparr>console := console w1 @ [ErrorRegisterDeliverable taskId e]\<rparr>)
      | (Inr _, w1) \<Rightarrow> (Inr (), w1))"

definition logDeliverable ::
  "config \<Rightarrow> string \<Rightarrow> string \<Rightarrow> string \<Rightarrow> string option \<Rightarrow> string option \<Rightarrow> world
     \<Rightarrow> (error + unit) \<times> world" where
  "logDeliverable cfg taskId deliverableType ttl pth descr w =
     (let w0 = w\<lparr>console := console w @ outsideBaseWarning cfg deliverableType pth\<rparr>
      in registerDeliverable taskId deliverableType ttl pth descr w0)"

text \<open>
  \<^verbatim>\<open>
  export async function getDeliverables(taskId: string): Promise<TaskDeliverable[]> {
    try {
      return await apiGet<TaskDeliverable[]>(`/api/tasks/${taskId}/deliverables`);
    } catch (error) {
      console.error(`Failed to fetch deliverables for task ${taskId}:`, error);
      return [];
    }
  }\<close>
\<close>

definition getDeliverables :: "string \<Rightarrow> world \<Rightarrow> (error + TaskDeliverable list) \<times> world" where
  "getDeliverables taskId w =
     (case apiGet (deliverablesUrl taskId) (store_get_deliverables taskId) w of
        (Inl e, w1) \<Rightarrow> (Inr [], w1\<lparr>console := console w1 @ [ErrorFetchDeliverables taskId e]\<rparr>)
      | (Inr ds, w1) \<Rightarrow> (Inr ds, w1))"


subsection \<open>Status transitions\<close>

text \<open>
  \<^verbatim>\<open>
  export async function transitionStatus(taskId, newStatus, agentId?): Promise<Task> {
    const task = await apiGet<Task>(`/api/tasks/${taskId}`);
    if (!isValidTransition(task.status, newStatus)) {
      throw new Error(`Invalid status transition: ${task.status} -> ${newStatus}. ...`);
    }
    const body: Record<string, unknown> = { status: newStatus };
    if (agentId) { body.updated_by_agent_id = agentId; }
    return apiPatch<Task>(`/api/tasks/${taskId}`, body);
  }\<close>
\<close>

definition transitionStatus ::
  "string \<Rightarrow> TaskStatus \<Rightarrow> string option \<Rightarrow> world \<Rightarrow> (error + Task) \<times> world" where
  "transitionStatus taskId newStatus agentId w =
     (case getTask taskId w of
        (Inl e, w1) \<Rightarrow> (Inl e, w1)
      | (Inr task, w1) \<Rightarrow>
          if \<not> isValidTransition (task_status task) newStatus
          then (Inl (InvalidTransition (task_status task) newStatus), w1)
          else apiPatch (taskUrl taskId)
                 (store_patch_task taskId newStatus (truthy agentId)) w1)"


text \<open>
  \<^verbatim>\<open>
  export async function moveToReview(taskId: string): Promise<Task> {
    const deliverables = await getDeliverables(taskId);
    if (deliverables.length === 0) {
      throw new Error('Cannot move to review: no deliverables registered.');
    }
    return transitionStatus(taskId, 'review');
  }\<close>
\<close>

definition moveToReview :: "string \<Rightarrow> world \<Rightarrow> (error + Task) \<times> world" where
  "moveToReview taskId w =
     (case getDeliverables taskId w of
        (Inl e, w1) \<Rightarrow> (Inl e, w1)
      | (Inr ds, w1) \<Rightarrow>
          if length ds = 0 then (Inl PreconditionFailed, w1)
          else transitionStatus taskId ''review'' None w1)"

subsection \<open>Sub-agent session manager\<close>

record SpawnResult =
  sessionId :: string
  reused :: bool

text \<open>
  \<^verbatim>\<open>
  export async function spawnSubAgent(params: SpawnSubAgentParams) {
    const existing = await apiGet<SubAgentSession[]>(`/api/tasks/${params.taskId}/subagent`);
    const active = existing.filter(s => s.status === 'active');
    if (active.length > 0) {
      const newest = active[0];
      console.log(`Reusing existing session ${newest.openclaw_session_id} ...`);
      await logActivity({ taskId: params.taskId, activityType: 'updated',
        message: `Reusing existing sub-agent session: ${newest.agent_name || newest.openclaw_session_id}`,
        metadata: { sessionId: newest.openclaw_session_id, reused: true } });
      return { sessionId: newest.openclaw_session_id, reused: true };
    }
    await Promise.all([
      logActivity({ taskId: params.taskId, activityType: 'spawned',
        message: `Sub-agent spawned: ${params.agentName}`,
        metadata: { sessionId: params.sessionId, role: params.agentName,
                    description: params.description } }),
      apiPost(`/api/tasks/${params.taskId}/subagent`,
        { openclaw_session_id: params.sessionId, agent_name: params.agentName }),
    ]);
    return { sessionId: params.sessionId, reused: false };
  }\<close>
\<close>

definition nameOrSessionId :: "SubAgentSession \<Rightarrow> string" where
  "nameOrSessionId s = (case truthy (agent_name s) of None \<Rightarrow> openclaw_session_id s | Some n \<Rightarrow> n)"

definition spawnMetadata :: "string \<Rightarrow> string \<Rightarrow> string option \<Rightarrow> (string \<times> string) list" where
  "spawnMetadata sid agentName descr =
     [(''sessionId'', sid), (''role'', agentName)] @
     (case descr of None \<Rightarrow> [] | Some d \<Rightarrow> [(''description'', d)])"

definition spawnSubAgent ::
  "string \<Rightarrow> string \<Rightarrow> string \<Rightarrow> string option \<Rightarrow> world \<Rightarrow> (error + SpawnResult) \<times> world" where
  "spawnSubAgent taskId sid agentName descr w =
     (case getSessions taskId w of
        (Inl e, w1) \<Rightarrow> (Inl e, w1)
      | (Inr existing, w1) \<Rightarrow>
          (case filter (\<lambda>s. session_status s = ''active'') existing of
             newest # _ \<Rightarrow>
               (let w2 = w1\<lparr>console := console w1 @ [LogReusing (openclaw_session_id newest)]\<rparr>
                in case logActivity taskId ''updated''
                          (''Reusing existing sub-agent session: '' @ nameOrSessionId newest) None
                          [(''sessionId'', openclaw_session_id newest), (''reused'', ''true'')] w2 of
                     (Inl e, w3) \<Rightarrow> (Inl e, w3)
                   | (Inr _, w3) \<Rightarrow>
                       (Inr \<lparr>sessionId = openclaw_session_id newest, reused = True\<rparr>, w3))
           | [] \<Rightarrow>
               (case logActivity taskId ''spawned'' (''Sub-agent spawned: '' @ agentName) None
                       (spawnMetadata sid agentName descr) w1 of
                  (r1, w2) \<Rightarrow>
                    (case apiPost (subagentUrl taskId)
                            (store_post_session taskId sid (Some agentName)) w2 of
                       (r2, w3) \<Rightarrow>
                         (case r1 of
                            Inl e \<Rightarrow> (Inl e, w3)
                          | Inr _ \<Rightarrow>
                              (case r2 of
                                 Inl e \<Rightarrow> (Inl e, w3)
                               | Inr _ \<Rightarrow> (Inr \<lparr>sessionId = sid, reused = False\<rparr>, w3)))))))"

text \<open>
  The part of \<open>spawnSubAgent\<close> after its first \<^verbatim>\<open>await\<close>: what it does once the list
  of sessions, \<open>existing\<close>, has arrived. Between the fetch and this part other callers can
  run.
\<close>

definition spawnSubAgent_resume ::
  "string \<Rightarrow> string \<Rightarrow> string \<Rightarrow> string option \<Rightarrow> SubAgentSession list \<Rightarrow> world
     \<Rightarrow> (error + SpawnResult) \<times> world" where
  "spawnSubAgent_resume taskId sid agentName descr existing w1 =
     (case filter (\<lambda>s. session_status s = ''active'') existing of
        newest # _ \<Rightarrow>
          (let w2 = w1\<lparr>console := console w1 @ [LogReusing (openclaw_session_id newest)]\<rparr>
           in case logActivity taskId ''updated''
                     (''Reusing existing sub-agent session: '' @ nameOrSessionId newest) None
                     [(''sessionId'', openclaw_session_id newest), (''reused'', ''true'')] w2 of
                (Inl e, w3) \<Rightarrow> (Inl e, w3)
              | (Inr _, w3) \<Rightarrow>
                  (Inr \<lparr>sessionId = openclaw_session_id newest, reused = True\<rparr>, w3))
      | [] \<Rightarrow>
          (case logActivity taskId ''spawned'' (''Sub-agent spawned: '' @ agentName) None
                  (spawnMetadata sid agentName descr) w1 of
             (r1, w2) \<Rightarrow>
               (case apiPost (subagentUrl taskId)
                       (store_post_session taskId sid (Some agentName)) w2 of
                  (r2, w3) \<Rightarrow>
                    (case r1 of
                       Inl e \<Rightarrow> (Inl e, w3)
                     | Inr _ \<Rightarrow>
                         (case r2 of
                            Inl e \<Rightarrow> (Inl e, w3)
                          | Inr _ \<Rightarrow> (Inr \<lparr>sessionId = sid, reused = False\<rparr>, w3))))))"


text \<open>One element of \<^verbatim>\<open>CompleteSubAgentParams.deliverables\<close>.\<close>

record DeliverableSpec =
  d_type :: string
  d_title :: string
  d_path :: "string option"
  d_description :: "string option"

text \<open>
  The loop \<^verbatim>\<open>for (const d of params.deliverables) promises.push(logDeliverable({...}))\<close>
  calls \<open>logDeliverable\<close> once per element without awaiting it. Each call runs up to its
  request at once, so the warnings of all elements are written, and the requests issued, in
  order, before any answer arrives; the registrations then settle in the order of issue.
\<close>

definition emitWarnings :: "config \<Rightarrow> DeliverableSpec list \<Rightarrow> world \<Rightarrow> world" where
  "emitWarnings cfg ds w =
     w\<lparr>console := console w @ concat (map (\<lambda>d. outsideBaseWarning cfg (d_type d) (d_path d)) ds)\<rparr>"

fun registerDeliverables ::
  "string \<Rightarrow> DeliverableSpec list \<Rightarrow> world \<Rightarrow> (error + unit) \<times> world" where
  "registerDeliverables taskId [] w = (Inr (), w)"
| "registerDeliverables taskId (d # ds) w =
     (case registerDeliverable taskId (d_type d) (d_title d) (d_path d) (d_description d) w of
        (r, w1) \<Rightarrow>
          (case registerDeliverables taskId ds w1 of
             (rs, w2) \<Rightarrow> (case r of Inl e \<Rightarrow> (Inl e, w2) | Inr _ \<Rightarrow> (rs, w2))))"

text \<open>
  \<^verbatim>\<open>
  export async function completeSubAgent(params: CompleteSubAgentParams): Promise<void> {
    const promises: Promise<unknown>[] = [
      logActivity({ taskId: params.taskId, activityType: 'completed',
        message: `${params.agentName} completed: ${params.summary}`,
        metadata: { sessionId: params.sessionId } }),
      apiPatch(`/api/openclaw/sessions/${params.sessionId}`,
        { status: 'completed', ended_at: new Date().toISOString() }),
    ];
    if (params.deliverables) {
      for (const d of params.deliverables) { promises.push(logDeliverable({ ... })); }
    }
    await Promise.all(promises);
  }\<close>
  The optional array is \<open>None\<close> when the caller leaves it out. All requests are issued
  before the first answer: the activity, the session update, the deliverables. The warnings
  of the deliverables are therefore on the console before the error of a failed activity
  request can be. Only the session update can reject.
\<close>

definition completeSubAgent ::
  "config \<Rightarrow> string \<Rightarrow> string \<Rightarrow> string \<Rightarrow> string \<Rightarrow> DeliverableSpec list option \<Rightarrow> world
     \<Rightarrow> (error + unit) \<times> world" where
  "completeSubAgent cfg taskId sid agentName summary dels w =
     (case logActivity taskId ''completed'' (agentName @ '' completed: '' @ summary) None
             [(''sessionId'', sid)]
             (emitWarnings cfg (case dels of None \<Rightarrow> [] | Some ds \<Rightarrow> ds) w) of
        (r1, w1) \<Rightarrow>
          (case apiPatch (sessionUrl sid)
                  (store_patch_session sid ''completed'' (clock w1 (length (requests w1)))) w1 of
             (r2, w2) \<Rightarrow>
               (case registerDeliverables taskId (case dels of None \<Rightarrow> [] | Some ds \<Rightarrow> ds) w2 of
                  (r3, w3) \<Rightarrow>
                    (case r1 of
                       Inl e \<Rightarrow> (Inl e, w3)
                     | Inr _ \<Rightarrow>
                         (case r2 of
                            Inl e \<Rightarrow> (Inl e, w3)
                          | Inr _ \<Rightarrow> (r3, w3))))))"




subsection \<open>End-state auditor\<close>

record EndStateReport =
  allDeliverablesExist :: bool
  deliverablesRegistered :: bool
  sessionsCompleted :: bool
  completionActivityLogged :: bool
  statusIsReview :: bool
  ready :: bool
  issues :: "string list"

text \<open>\<^verbatim>\<open>`${n}`\<close> for a non-negative integer: its decimal digits.\<close>

fun showNat :: "nat \<Rightarrow> string" where
  "showNat n =
     (if n < 10 then [char_of (48 + n)] else showNat (n div 10) @ [char_of (48 + n mod 10)])"

declare showNat.simps [simp del]

text \<open>
  \<^verbatim>\<open>
  export async function endStateCheck(taskId: string): Promise<EndStateReport> {
    const issues: string[] = [];
    const deliverables = await getDeliverables(taskId);
    const deliverablesRegistered = deliverables.length > 0;
    if (!deliverablesRegistered) { issues.push('No deliverables registered via API'); }
    const allDeliverablesExist = deliverables.every(d => {
      if (d.deliverable_type !== 'file') return true;
      return true;
    });
    const sessions = await apiGet<SubAgentSession[]>(`/api/tasks/${taskId}/subagent`);
    const activeSessions = sessions.filter(s => s.status === 'active');
    const sessionsCompleted = activeSessions.length === 0;
    if (!sessionsCompleted) {
      issues.push(`${activeSessions.length} sub-agent session(s) still active`);
    }
    const activities = await apiGet<TaskActivity[]>(`/api/tasks/${taskId}/activities`);
    const completionActivityLogged = activities.some(a => a.activity_type === 'completed');
    if (!completionActivityLogged) { issues.push('No completion activity logged'); }
    const task = await apiGet<Task>(`/api/tasks/${taskId}`);
    const statusIsReview = task.status === 'review';
    if (!statusIsReview && task.status !== 'done') {
      issues.push(`Task status is '${task.status}', expected 'review'`);
    }
    const ready = deliverablesRegistered && sessionsCompleted && completionActivityLogged
      && (statusIsReview || task.status === 'done');
    return { allDeliverablesExist, deliverablesRegistered, sessionsCompleted,
             completionActivityLogged, statusIsReview, ready, issues };
  }\<close>
\<close>

definition endStateCheck :: "string \<Rightarrow> world \<Rightarrow> (error + EndStateReport) \<times> world" where
  "endStateCheck taskId w =
     (case getDeliverables taskId w of
        (Inl e, w1) \<Rightarrow> (Inl e, w1)
      | (Inr dels, w1) \<Rightarrow>
          (let deliverablesRegistered_v = (length dels > 0);
               issues1 = (if \<not> deliverablesRegistered_v
                          then [''No deliverables registered via API''] else []);
               allDeliverablesExist_v =
                 list_all (\<lambda>d. if deliverable_type d \<noteq> ''file'' then True else True) dels
           in case getSessions taskId w1 of
                (Inl e, w2) \<Rightarrow> (Inl e, w2)
              | (Inr sess, w2) \<Rightarrow>
                  (let activeSessions = filter (\<lambda>s. session_status s = ''active'') sess;
                       sessionsCompleted_v = (length activeSessions = 0);
                       issues2 = issues1 @
                         (if \<not> sessionsCompleted_v
                          then [showNat (length activeSessions) @ '' sub-agent session(s) still active'']
                          else [])
                   in case getActivities taskId w2 of
                        (Inl e, w3) \<Rightarrow> (Inl e, w3)
                      | (Inr acts, w3) \<Rightarrow>
                          (let completionActivityLogged_v =
                                 list_ex (\<lambda>a. activity_type a = ''completed'') acts;
                               issues3 = issues2 @
                                 (if \<not> completionActivityLogged_v
                                  then [''No completion activity logged''] else [])
                           in case getTask taskId w3 of
                                (Inl e, w4) \<Rightarrow> (Inl e, w4)
                              | (Inr task, w4) \<Rightarrow>
                                  (let statusIsReview_v = (task_status task = ''review'');
                                       issues4 = issues3 @
                                         (if \<not> statusIsReview_v \<and> task_status task \<noteq> ''done''
                                          then [''Task status is '' @ [CHR 0x27] @ task_status task @
                                                [CHR 0x27] @ '', expected '' @ [CHR 0x27] @ ''review'' @
                                                [CHR 0x27]]
                                          else []);
                                       ready_v = (deliverablesRegistered_v \<and> sessionsCompleted_v \<and>
                                                  completionActivityLogged_v \<and>
                                                  (statusIsReview_v \<or> task_status task = ''done''))
                                   in (Inr \<lparr>allDeliverablesExist = allDeliverablesExist_v,
                                             deliverablesRegistered = deliverablesRegistered_v,
                                             sessionsCompleted = sessionsCompleted_v,
                                             completionActivityLogged = completionActivityLogged_v,
                                             statusIsReview = statusIsReview_v,
                                             ready = ready_v,
                                             issues = issues4\<rparr>, w4))))))"

subsection \<open>Preflight synchroniser\<close>

record PreflightResult =
  task :: Task
  status :: TaskStatus
  outputDir :: string
  existingSessions :: "SubAgentSession list"
  hasActiveSession :: bool
  canStart :: bool
  reason :: "string option"

text \<open>The dash of the reason sentences, U+2014, in UTF-8.\<close>

definition emDash :: string where
  "emDash = [CHR 0xE2, CHR 0x80, CHR 0x94]"

text \<open>
  The \<^verbatim>\<open>switch (status)\<close> of preflight: \<^verbatim>\<open>canStart\<close> starts as false and
  \<^verbatim>\<open>reason\<close> as undefined; a status outside the six cases changes neither.
\<close>

definition statusPolicy :: "TaskStatus \<Rightarrow> bool \<times> string option" where
  "statusPolicy st =
     (if st = ''inbox'' then
        (False, Some (''Task is in inbox '' @ emDash @ '' waiting for assignment.''))
      else if st = ''assigned'' then
        (True, Some (''Task is assigned '' @ emDash @ '' ready to start. Will PATCH to in_progress.''))
      else if st = ''in_progress'' then
        (True, Some (''Task is in progress '' @ emDash @ '' continue work.''))
      else if st = ''testing'' then
        (False, Some (''Task is in testing '' @ emDash @ '' automated gate, do not override.''))
      else if st = ''review'' then
        (False, Some (''Task is in review '' @ emDash @ '' awaiting human approval.''))
      else if st = ''done'' then
        (False, Some (''Task is done '' @ emDash @ '' halt safely.''))
      else (False, None))"

text \<open>
  \<^verbatim>\<open>
  export async function preflight(taskId: string, dispatcherOutputDir?: string) {
    const task = await apiGet<Task>(`/api/tasks/${taskId}`);
    const status = task.status;
    let outputDir: string;
    if (dispatcherOutputDir) {
      outputDir = dispatcherOutputDir;
    } else {
      // Check task metadata for outputDir (stored in description or metadata field)
      outputDir = `${PROJECTS_BASE}/${taskId}/`;
    }
    outputDir = safePath(outputDir, taskId);
    const existingSessions = await apiGet<SubAgentSession[]>(`/api/tasks/${taskId}/subagent`);
    const activeSessions = existingSessions.filter(s => s.status === 'active');
    const hasActiveSession = activeSessions.length > 0;
    let canStart = false;
    let reason: string | undefined;
    switch (status) { ... }
    return { task, status, outputDir, existingSessions, hasActiveSession, canStart, reason };
  }\<close>
\<close>

definition preflight ::
  "config \<Rightarrow> string \<Rightarrow> string option \<Rightarrow> world \<Rightarrow> (error + PreflightResult) \<times> world" where
  "preflight cfg taskId dispatcherOutputDir w =
     (case getTask taskId w of
        (Inl e, w1) \<Rightarrow> (Inl e, w1)
      | (Inr tsk, w1) \<Rightarrow>
          (let outputDir0 = (case truthy dispatcherOutputDir of
                               Some d \<Rightarrow> d
                             | None \<Rightarrow> PROJECTS_BASE cfg @ ''/'' @ taskId @ ''/'');
               outputDir1 = safePath cfg outputDir0 taskId
           in case getSessions taskId w1 of
                (Inl e, w2) \<Rightarrow> (Inl e, w2)
              | (Inr existing, w2) \<Rightarrow>
                  (let activeSessions = filter (\<lambda>s. session_status s = ''active'') existing
                   in (Inr \<lparr>task = tsk, status = task_status tsk, outputDir = outputDir1,
                             existingSessions = existing,
                             hasActiveSession = (length activeSessions > 0),
                             canStart = fst (statusPolicy (task_status tsk)),
                             reason = snd (statusPolicy (task_status tsk))\<rparr>, w2))))"

text \<open>
  The output directory that the documented priority prescribes: the dispatcher's value,
  then the task metadata's value, then the default \<open>{root}/{taskId}/\<close>, the chosen one
  passed through the path sandbox.
\<close>

definition documentedOutputDir :: "config \<Rightarrow> string \<Rightarrow> string option \<Rightarrow> Task \<Rightarrow> string" where
  "documentedOutputDir cfg taskId dispatcherOutputDir tsk =
     safePath cfg
       (case truthy dispatcherOutputDir of
          Some d \<Rightarrow> d
        | None \<Rightarrow>
            (case truthy (metadata_outputDir tsk) of
               Some m \<Rightarrow> m
             | None \<Rightarrow> PROJECTS_BASE cfg @ ''/'' @ taskId @ ''/''))
       taskId"

subsection \<open>Sequences of calls\<close>





section \<open>Observations and example worlds\<close>

text \<open>The content of the store: what the orchestrator's requests can change.\<close>

definition store_content ::
  "world \<Rightarrow> Task list \<times> SubAgentSession list \<times> TaskActivity list \<times> TaskDeliverable list" where
  "store_content w = (tasks w, sessions w, activities w, deliverables w)"

text \<open>The task as the store holds it.\<close>

definition stored_task :: "world \<Rightarrow> string \<Rightarrow> Task option" where
  "stored_task w tid = find (\<lambda>t. task_ident t = tid) (tasks w)"

text \<open>The active sessions, the completed activities and the deliverables of a task.\<close>

definition active_sessions :: "world \<Rightarrow> string \<Rightarrow> SubAgentSession list" where
  "active_sessions w tid =
     filter (\<lambda>s. session_status s = ''active'') (filter (\<lambda>s. task_id s = tid) (sessions w))"

definition completed_activities :: "world \<Rightarrow> string \<Rightarrow> TaskActivity list" where
  "completed_activities w tid =
     filter (\<lambda>a. activity_type a = ''completed'') (filter (\<lambda>a. activity_task_id a = tid) (activities w))"

definition registered_deliverables :: "world \<Rightarrow> string \<Rightarrow> TaskDeliverable list" where
  "registered_deliverables w tid = filter (\<lambda>d. deliverable_task_id d = tid) (deliverables w)"

text \<open>The deliverable that registering one element of a completion's list creates.\<close>

definition deliverable_of :: "string \<Rightarrow> DeliverableSpec \<Rightarrow> TaskDeliverable" where
  "deliverable_of tid d =
     \<lparr>deliverable_task_id = tid, deliverable_type = d_type d, title = d_title d, path = d_path d,
      description = d_description d\<rparr>"


text \<open>Fault schedules: a store that always answers, and one that fails one request.\<close>

definition no_faults :: "nat \<Rightarrow> bool" where
  "no_faults k = False"

definition fault_at :: "nat \<Rightarrow> nat \<Rightarrow> bool" where
  "fault_at n k = (k = n)"

definition fixed_clock :: "nat \<Rightarrow> string" where
  "fixed_clock k = ''2026-01-01T00:00:00.000Z''"

definition fixed_id :: "nat \<Rightarrow> string" where
  "fixed_id k = ''generated''"

definition mk_world ::
  "Task list \<Rightarrow> SubAgentSession list \<Rightarrow> TaskActivity list \<Rightarrow> TaskDeliverable list \<Rightarrow> (nat \<Rightarrow> bool)
     \<Rightarrow> world" where
  "mk_world ts ss acts ds fs =
     \<lparr>tasks = ts, sessions = ss, activities = acts, deliverables = ds, master_agents = [],
      enforces_unique = False, faults = fs, clock = fixed_clock, fresh_id = fixed_id,
      requests = [], console = []\<rparr>"

definition mk_task :: "string \<Rightarrow> TaskStatus \<Rightarrow> Task" where
  "mk_task tid st =
     \<lparr>task_ident = tid, task_status = st, assigned_agent_id = None, metadata_outputDir = None\<rparr>"

definition mk_session :: "string \<Rightarrow> string \<Rightarrow> string \<Rightarrow> SubAgentSession" where
  "mk_session sid tid st =
     \<lparr>session_ident = sid, agent_id = None, openclaw_session_id = sid, session_type = ''subagent'',
      task_id = tid, session_status = st, ended_at = None, created_at = fixed_clock 0,
      agent_name = Some ''Developer''\<rparr>"

definition mk_activity :: "string \<Rightarrow> string \<Rightarrow> TaskActivity" where
  "mk_activity tid atype =
     \<lparr>activity_task_id = tid, activity_type = atype, activity_message = ''message'',
      activity_agent_id = None, activity_metadata = []\<rparr>"

definition mk_deliverable :: "string \<Rightarrow> string \<Rightarrow> TaskDeliverable" where
  "mk_deliverable tid p =
     \<lparr>deliverable_task_id = tid, deliverable_type = ''file'', title = ''Output'', path = Some p,
      description = None\<rparr>"

definition example_cfg :: config where
  "example_cfg = \<lparr>PROJECTS_BASE = ''~/projects'', HOME = Some ''/home/u''\<rparr>"

text \<open>A finished task, and a task whose metadata names an output directory.\<close>

definition done_world :: world where
  "done_world = mk_world [mk_task ''T1'' ''done''] [mk_session ''S1'' ''T1'' ''completed'']
       [mk_activity ''T1'' ''completed''] [mk_deliverable ''T1'' ''/home/u/projects/T1/out.html'']
       no_faults"

definition metadata_world :: world where
  "metadata_world =
     mk_world [(mk_task ''T1'' ''assigned'')\<lparr>metadata_outputDir := Some ''/home/u/projects/custom/''\<rparr>]
       [] [] [] no_faults"

text \<open>A task in progress with one active session: with a store that fails the first request,
  and with a store that answers. One deliverable of a completion.\<close>

definition dangling_world :: world where
  "dangling_world = mk_world [mk_task ''T1'' ''in_progress''] [mk_session ''S1'' ''T1'' ''active'']
       [] [] (fault_at 0)"

definition spawned_world :: world where
  "spawned_world = mk_world [mk_task ''T1'' ''in_progress''] [mk_session ''S1'' ''T1'' ''active'']
       [] [] no_faults"

definition component_file :: DeliverableSpec where
  "component_file = \<lparr>d_type = ''file'', d_title = ''Component'',
                      d_path = Some ''/home/u/projects/T1/Component.tsx'', d_description = None\<rparr>"



definition two_task_world :: world where
  "two_task_world = mk_world [mk_task ''T1'' ''in_progress'', mk_task ''T2'' ''in_progress'']
       [mk_session ''S9'' ''T2'' ''active'', mk_session ''S1'' ''T1'' ''active''] [] [] no_faults"

definition deliverable_fault_world :: world where
  "deliverable_fault_world = mk_world [mk_task ''T1'' ''in_progress'']
       [mk_session ''S1'' ''T1'' ''active''] [] [] (fault_at 2)"

section \<open>Properties of the pure helpers\<close>

lemma startsWith_prefix: "startsWith s p = prefix p s"
  by (induction s p rule: startsWith.induct) auto

lemma startsWith_append: "startsWith (p @ s) p"
  by (simp add: startsWith_prefix)

lemma indexOf_STATUS_ORDER:
  "indexOf STATUS_ORDER s = (case lifecycle_index s of None \<Rightarrow> - 1 | Some i \<Rightarrow> int i)"
  by (simp add: STATUS_ORDER_def lifecycle_index_def)

lemma isValidTransition_strictly_later: "isValidTransition from to = strictly_later from to"
  by (cases "lifecycle_index from"; cases "lifecycle_index to")
     (simp_all add: isValidTransition_def strictly_later_def indexOf_STATUS_ORDER)

lemma getSubstitution_plain: "CHR ''$'' \<notin> set r \<Longrightarrow> getSubstitution m a r = r"
  by (induction m a r rule: getSubstitution.induct) auto

lemma replaceLeadingTilde_no_tilde: "\<not> startsWith s ''~'' \<Longrightarrow> replaceLeadingTilde s r = s"
  by (cases s) (auto simp: replaceLeadingTilde_def)

lemma replaceLeadingTilde_expand:
  "CHR ''$'' \<notin> set home \<Longrightarrow> replaceLeadingTilde (CHR ''~'' # rest) home = home @ rest"
  by (simp add: replaceLeadingTilde_def getSubstitution_plain)

lemma safePath_prefix: "startsWith (safePath cfg candidate taskId) (resolvedBase cfg)"
  by (simp add: safePath_def Let_def startsWith_prefix)

section \<open>What each request does to the world\<close>

lemmas api_defs = api_def apiGet_def apiPost_def apiPatch_def apiDelete_def

lemma getTask_eq:
  "getTask tid w =
     (if faults w (length (requests w)) then Inl (HttpError GET (taskUrl tid) 500)
      else (case stored_task w tid of
              None \<Rightarrow> Inl (HttpError GET (taskUrl tid) 404)
            | Some t \<Rightarrow> Inr t),
      w\<lparr>requests := requests w @ [(GET, taskUrl tid)]\<rparr>)"
  by (simp add: getTask_def api_defs store_get_task_def stored_task_def Let_def split: option.splits)

lemma getSessions_eq:
  "getSessions tid w =
     (if faults w (length (requests w))
      then Inl (HttpError GET (subagentUrl tid) 500)
      else Inr (filter (\<lambda>s. task_id s = tid) (sessions w)),
      w\<lparr>requests := requests w @ [(GET, subagentUrl tid)]\<rparr>)"
  by (simp add: getSessions_def api_defs store_get_sessions_def Let_def)

lemma getActivities_eq:
  "getActivities tid w =
     (if faults w (length (requests w))
      then Inl (HttpError GET (activitiesUrl tid) 500)
      else Inr (filter (\<lambda>a. activity_task_id a = tid) (activities w)),
      w\<lparr>requests := requests w @ [(GET, activitiesUrl tid)]\<rparr>)"
  by (simp add: getActivities_def api_defs store_get_activities_def Let_def)

lemma getDeliverables_eq:
  "getDeliverables tid w =
     (if faults w (length (requests w))
      then (Inr [], w\<lparr>requests := requests w @ [(GET, deliverablesUrl tid)],
                      console := console w @ [ErrorFetchDeliverables tid
                         (HttpError GET (deliverablesUrl tid) 500)]\<rparr>)
      else (Inr (registered_deliverables w tid),
            w\<lparr>requests := requests w @ [(GET, deliverablesUrl tid)]\<rparr>))"
  by (simp add: getDeliverables_def api_defs store_get_deliverables_def registered_deliverables_def Let_def)

lemma logActivity_eq:
  "logActivity tid atype msg agentId meta w =
     (Inr (),
      if faults w (length (requests w))
      then w\<lparr>requests := requests w @ [(POST, activitiesUrl tid)],
              console := console w @ [ErrorLogActivity tid
                 (HttpError POST (activitiesUrl tid) 500)]\<rparr>
      else w\<lparr>requests := requests w @ [(POST, activitiesUrl tid)],
              activities := activities w @
                [\<lparr>activity_task_id = tid, activity_type = atype, activity_message = msg,
                  activity_agent_id = agentId, activity_metadata = meta\<rparr>]\<rparr>)"
  by (simp add: logActivity_def api_defs store_post_activity_def Let_def)

lemma logDeliverable_eq:
  "logDeliverable cfg tid dtype ttl pth descr w =
     (Inr (),
      if faults w (length (requests w))
      then w\<lparr>requests := requests w @ [(POST, deliverablesUrl tid)],
              console := console w @ outsideBaseWarning cfg dtype pth @
                 [ErrorRegisterDeliverable tid
                    (HttpError POST (deliverablesUrl tid) 500)]\<rparr>
      else w\<lparr>requests := requests w @ [(POST, deliverablesUrl tid)],
              console := console w @ outsideBaseWarning cfg dtype pth,
              deliverables := deliverables w @
                [\<lparr>deliverable_task_id = tid, deliverable_type = dtype, title = ttl, path = pth,
                  description = descr\<rparr>]\<rparr>)"
  by (simp add: logDeliverable_def registerDeliverable_def api_defs store_post_deliverable_def
      Let_def)

lemma registerDeliverable_eq:
  "registerDeliverable tid dtype ttl pth descr w =
     (Inr (),
      if faults w (length (requests w))
      then w\<lparr>requests := requests w @ [(POST, deliverablesUrl tid)],
              console := console w @
                 [ErrorRegisterDeliverable tid (HttpError POST (deliverablesUrl tid) 500)]\<rparr>
      else w\<lparr>requests := requests w @ [(POST, deliverablesUrl tid)],
              deliverables := deliverables w @
                [\<lparr>deliverable_task_id = tid, deliverable_type = dtype, title = ttl, path = pth,
                  description = descr\<rparr>]\<rparr>)"
  by (simp add: registerDeliverable_def api_defs store_post_deliverable_def Let_def)

lemma emitWarnings_frame:
  "tasks (emitWarnings cfg ds w) = tasks w"
  "sessions (emitWarnings cfg ds w) = sessions w"
  "activities (emitWarnings cfg ds w) = activities w"
  "deliverables (emitWarnings cfg ds w) = deliverables w"
  "faults (emitWarnings cfg ds w) = faults w"
  "clock (emitWarnings cfg ds w) = clock w"
  "enforces_unique (emitWarnings cfg ds w) = enforces_unique w"
  "requests (emitWarnings cfg ds w) = requests w"
  by (simp_all add: emitWarnings_def)

lemma strictly_later_cases:
  "strictly_later a b \<Longrightarrow> lifecycle_index b \<noteq> None \<and> a \<noteq> ''done'' \<and> \<not> strictly_later b a"
  by (auto simp: strictly_later_def lifecycle_index_def split: option.splits if_splits)

lemma find_map_status:
  "find (\<lambda>t. task_ident t = tid) xs = Some t \<Longrightarrow>
   find (\<lambda>t. task_ident t = tid)
     (map (\<lambda>x. if task_ident x = tid then x\<lparr>task_status := s\<rparr> else x) xs)
   = Some (t\<lparr>task_status := s\<rparr>)"
  by (induction xs) (auto split: if_splits)

lemma transitionStatus_rejects_eq:
  assumes "\<not> faults w (length (requests w))" "stored_task w taskId = Some t"
    "\<not> strictly_later (task_status t) newStatus"
  shows "transitionStatus taskId newStatus agentId w =
           (Inl (InvalidTransition (task_status t) newStatus),
            w\<lparr>requests := requests w @ [(GET, taskUrl taskId)]\<rparr>)"
  using assms by (simp add: transitionStatus_def getTask_eq isValidTransition_strictly_later)

lemma transitionStatus_accepts_eq:
  assumes "\<not> faults w (length (requests w))" "\<not> faults w (Suc (length (requests w)))"
    "stored_task w taskId = Some t" "strictly_later (task_status t) newStatus" "newStatus \<noteq> ''done''"
  shows "transitionStatus taskId newStatus agentId w =
           (Inr (t\<lparr>task_status := newStatus\<rparr>),
            w\<lparr>requests := requests w @ [(GET, taskUrl taskId), (PATCH, taskUrl taskId)],
              tasks := map (\<lambda>x. if task_ident x = taskId then x\<lparr>task_status := newStatus\<rparr> else x)
                         (tasks w)\<rparr>)"
  using assms strictly_later_cases[OF assms(4)]
  by (auto simp: transitionStatus_def getTask_eq isValidTransition_strictly_later api_defs
      store_patch_task_def stored_task_def Let_def)

lemma transitionStatus_first_request:
  "prefix (requests w @ [(GET, taskUrl taskId)])
      (requests (snd (transitionStatus taskId newStatus agentId w)))"
  by (auto simp: transitionStatus_def getTask_eq api_defs Let_def store_patch_task_def
      split: option.splits)

lemma getTask_InrD: "fst (getTask tid w) = Inr t \<Longrightarrow> stored_task w tid = Some t"
  by (auto simp: getTask_eq split: if_splits option.splits)

lemma reads_keep_tasks:
  "tasks (snd (getDeliverables tid w)) = tasks w"
  "tasks (snd (getSessions tid w)) = tasks w"
  "tasks (snd (getActivities tid w)) = tasks w"
  by (simp_all add: getDeliverables_eq getSessions_eq getActivities_eq)

lemma patchSession_eq:
  "apiPatch (sessionUrl sid) (store_patch_session sid st e) w =
     (if faults w (length (requests w))
      then (Inl (HttpError PATCH (sessionUrl sid) 500), w\<lparr>requests := requests w @ [(PATCH, sessionUrl sid)]\<rparr>)
      else (case find (\<lambda>s. openclaw_session_id s = sid) (sessions w) of
              None \<Rightarrow> (Inl (HttpError PATCH (sessionUrl sid) 404),
                        w\<lparr>requests := requests w @ [(PATCH, sessionUrl sid)]\<rparr>)
            | Some _ \<Rightarrow>
                (Inr (),
                 w\<lparr>requests := requests w @ [(PATCH, sessionUrl sid)],
                   sessions := map (\<lambda>s. if openclaw_session_id s = sid
                                          then s\<lparr>session_status := st, ended_at := Some e\<rparr> else s)
                                 (sessions w)\<rparr>)))"
  by (simp add: api_defs store_patch_session_def Let_def split: option.splits)



lemma registerDeliverables_fst: "fst (registerDeliverables tid ds w) = Inr ()"
  by (induction ds arbitrary: w) (simp_all add: registerDeliverable_eq split: prod.splits)

lemma registerDeliverables_frame:
  "sessions (snd (registerDeliverables tid ds w)) = sessions w \<and>
   activities (snd (registerDeliverables tid ds w)) = activities w \<and>
   tasks (snd (registerDeliverables tid ds w)) = tasks w \<and>
   faults (snd (registerDeliverables tid ds w)) = faults w \<and>
   requests (snd (registerDeliverables tid ds w))
     = requests w @ replicate (length ds) (POST, deliverablesUrl tid)"
proof (induction ds arbitrary: w)
  case Nil
  show ?case by simp
next
  case (Cons d ds)
  show ?case
    using Cons.IH[of "snd (registerDeliverable tid (d_type d) (d_title d) (d_path d) (d_description d) w)"]
    by (simp add: registerDeliverable_eq replicate_append_same split: prod.splits)
qed

lemma registerDeliverables_registers:
  "(\<forall>k < length ds. \<not> faults w (length (requests w) + k)) \<Longrightarrow>
   deliverables (snd (registerDeliverables tid ds w)) = deliverables w @ map (deliverable_of tid) ds"
proof (induction ds arbitrary: w)
  case Nil
  show ?case by simp
next
  case (Cons d ds)
  let ?w1 = "snd (registerDeliverable tid (d_type d) (d_title d) (d_path d) (d_description d) w)"
  have nf: "\<not> faults w (length (requests w))" using Cons.prems by auto
  have "\<forall>k < length ds. \<not> faults ?w1 (length (requests ?w1) + k)"
    using Cons.prems nf by (auto simp: registerDeliverable_eq)
  from Cons.IH[OF this] show ?case
    using nf by (simp add: registerDeliverable_eq deliverable_of_def split: prod.splits)
qed


lemma registerDeliverables_InrD: "registerDeliverables tid ds w = (r, w') \<Longrightarrow> r = Inr ()"
  using registerDeliverables_fst[of tid ds w] by simp

lemma completed_map_props:
  assumes "s \<in> set (map (\<lambda>s. if openclaw_session_id s = sid
                          then s\<lparr>session_status := st, ended_at := Some e\<rparr> else s) xs)"
    and "openclaw_session_id s = sid"
  shows "session_status s = st \<and> ended_at s = Some e"
proof -
  from assms(1) obtain x where x: "x \<in> set xs"
    "s = (if openclaw_session_id x = sid then x\<lparr>session_status := st, ended_at := Some e\<rparr> else x)"
    unfolding set_map by blast
  show ?thesis
  proof (cases "openclaw_session_id x = sid")
    case True
    with x(2) show ?thesis by simp
  next
    case False
    with x(2) assms(2) show ?thesis by simp
  qed
qed

lemma logActivity_frame:
  "fst (logActivity tid atype msg agentId meta w) = Inr ()"
  "tasks (snd (logActivity tid atype msg agentId meta w)) = tasks w"
  "sessions (snd (logActivity tid atype msg agentId meta w)) = sessions w"
  "deliverables (snd (logActivity tid atype msg agentId meta w)) = deliverables w"
  "faults (snd (logActivity tid atype msg agentId meta w)) = faults w"
  "clock (snd (logActivity tid atype msg agentId meta w)) = clock w"
  "fresh_id (snd (logActivity tid atype msg agentId meta w)) = fresh_id w"
  "enforces_unique (snd (logActivity tid atype msg agentId meta w)) = enforces_unique w"
  "requests (snd (logActivity tid atype msg agentId meta w)) = requests w @ [(POST, activitiesUrl tid)]"
  by (simp_all add: logActivity_eq)




lemma active_sessions_after_complete:
  assumes "\<forall>s \<in> set (active_sessions w tid). openclaw_session_id s = sid"
  shows "filter (\<lambda>s. session_status s = ''active'')
           (filter (\<lambda>s. task_id s = tid)
              (map (\<lambda>s. if openclaw_session_id s = sid
                        then s\<lparr>session_status := ''completed'', ended_at := Some e\<rparr> else s)
                 (sessions w))) = []"
proof -
  have "\<not> (session_status s = ''active'' \<and> task_id s = tid)"
    if "s \<in> set (map (\<lambda>s. if openclaw_session_id s = sid
                        then s\<lparr>session_status := ''completed'', ended_at := Some e\<rparr> else s)
                 (sessions w))" for s
  proof -
    from that obtain x where x: "x \<in> set (sessions w)"
      "s = (if openclaw_session_id x = sid
            then x\<lparr>session_status := ''completed'', ended_at := Some e\<rparr> else x)"
      unfolding set_map by blast
    show ?thesis
    proof (cases "openclaw_session_id x = sid")
      case True
      with x(2) show ?thesis by simp
    next
      case False
      with x(2) have "s = x" by simp
      with False x(1) assms show ?thesis by (auto simp: active_sessions_def)
    qed
  qed
  then show ?thesis by (auto simp: filter_empty_conv)
qed

lemma completeSubAgent_snd:
  "snd (completeSubAgent cfg taskId sid agentName summary dels w) =
     snd (registerDeliverables taskId (case dels of None \<Rightarrow> [] | Some ds \<Rightarrow> ds)
            (snd (apiPatch (sessionUrl sid)
                    (store_patch_session sid ''completed''
                       (clock w (Suc (length (requests w)))))
                    (snd (logActivity taskId ''completed'' (agentName @ '' completed: '' @ summary)
                            None [(''sessionId'', sid)]
                            (emitWarnings cfg (case dels of None \<Rightarrow> [] | Some ds \<Rightarrow> ds) w))))))"
  by (simp add: completeSubAgent_def logActivity_eq emitWarnings_def split: prod.splits sum.splits)

lemma completeSubAgent_fst:
  "fst (completeSubAgent cfg taskId sid agentName summary dels w) =
     (if faults w (Suc (length (requests w))) then Inl (HttpError PATCH (sessionUrl sid) 500)
      else (case find (\<lambda>s. openclaw_session_id s = sid) (sessions w) of
              None \<Rightarrow> Inl (HttpError PATCH (sessionUrl sid) 404)
            | Some _ \<Rightarrow> Inr ()))"
proof -
  define ds where "ds = (case dels of None \<Rightarrow> [] | Some ds \<Rightarrow> ds)"
  define msg where "msg = agentName @ '' completed: '' @ summary"
  define w1 where "w1 = snd (logActivity taskId ''completed'' msg None [(''sessionId'', sid)]
                               (emitWarnings cfg ds w))"
  have l: "logActivity taskId ''completed'' msg None [(''sessionId'', sid)] (emitWarnings cfg ds w)
             = (Inr (), w1)"
    unfolding w1_def
    using logActivity_frame(1)[of taskId "''completed''" msg None "[(''sessionId'', sid)]"
        "emitWarnings cfg ds w"]
    by (metis prod.collapse)
  have w1: "sessions w1 = sessions w" "faults w1 = faults w"
    "requests w1 = requests w @ [(POST, activitiesUrl taskId)]"
    unfolding w1_def by (simp_all add: logActivity_frame emitWarnings_frame)
  have c: "fst (completeSubAgent cfg taskId sid agentName summary dels w) =
       (case fst (apiPatch (sessionUrl sid)
                (store_patch_session sid ''completed'' (clock w1 (length (requests w1)))) w1) of
          Inl e \<Rightarrow> Inl e | Inr _ \<Rightarrow> Inr ())"
    unfolding completeSubAgent_def msg_def[symmetric] ds_def[symmetric] l prod.case sum.case
    by (auto split: prod.splits sum.splits dest: registerDeliverables_InrD)
  show ?thesis
    unfolding c by (simp add: patchSession_eq w1 split: option.splits)
qed

lemma completeSubAgent_ok_world:
  assumes ok: "fst (completeSubAgent cfg taskId sid agentName summary dels w) = Inr ()"
  shows "\<not> faults w (Suc (length (requests w))) \<and>
         find (\<lambda>s. openclaw_session_id s = sid) (sessions w) \<noteq> None \<and>
         snd (completeSubAgent cfg taskId sid agentName summary dels w) =
           snd (registerDeliverables taskId (case dels of None \<Rightarrow> [] | Some ds \<Rightarrow> ds)
                 ((snd (logActivity taskId ''completed'' (agentName @ '' completed: '' @ summary) None
                          [(''sessionId'', sid)]
                          (emitWarnings cfg (case dels of None \<Rightarrow> [] | Some ds \<Rightarrow> ds) w)))
                  \<lparr>requests := requests w @ [(POST, activitiesUrl taskId), (PATCH, sessionUrl sid)],
                   sessions := map (\<lambda>s. if openclaw_session_id s = sid
                                          then s\<lparr>session_status := ''completed'',
                                                 ended_at := Some (clock w (Suc (length (requests w))))\<rparr>
                                          else s) (sessions w)\<rparr>))"
proof -
  define ds where "ds = (case dels of None \<Rightarrow> [] | Some ds \<Rightarrow> ds)"
  define msg where "msg = agentName @ '' completed: '' @ summary"
  define w1 where "w1 = snd (logActivity taskId ''completed'' msg None [(''sessionId'', sid)]
                               (emitWarnings cfg ds w))"
  define e where "e = clock w (Suc (length (requests w)))"
  have w1: "sessions w1 = sessions w" "faults w1 = faults w"
    "requests w1 = requests w @ [(POST, activitiesUrl taskId)]"
    unfolding w1_def by (simp_all add: logActivity_frame emitWarnings_frame)
  from ok have p: "\<not> faults w (Suc (length (requests w)))"
      "find (\<lambda>s. openclaw_session_id s = sid) (sessions w) \<noteq> None"
    unfolding completeSubAgent_fst by (auto split: if_splits option.splits)
  then obtain s0 where s0: "find (\<lambda>s. openclaw_session_id s = sid) (sessions w) = Some s0"
    by auto
  have patch: "snd (apiPatch (sessionUrl sid) (store_patch_session sid ''completed'' e) w1)
               = w1\<lparr>requests := requests w @ [(POST, activitiesUrl taskId), (PATCH, sessionUrl sid)],
                    sessions := map (\<lambda>s. if openclaw_session_id s = sid
                                           then s\<lparr>session_status := ''completed'', ended_at := Some e\<rparr>
                                           else s) (sessions w)\<rparr>"
    using p s0 by (simp add: patchSession_eq w1)
  have res: "snd (completeSubAgent cfg taskId sid agentName summary dels w)
               = snd (registerDeliverables taskId ds
                        (snd (apiPatch (sessionUrl sid) (store_patch_session sid ''completed'' e) w1)))"
    unfolding completeSubAgent_snd ds_def w1_def msg_def e_def ..
  show ?thesis
    using p res unfolding patch unfolding w1_def msg_def ds_def e_def by simp
qed

section \<open>Sessions under the orchestrator's calls\<close>













































lemma spawnSubAgent_split:
  "spawnSubAgent taskId sid agentName descr w =
     (case getSessions taskId w of
        (Inl e, w1) \<Rightarrow> (Inl e, w1)
      | (Inr existing, w1) \<Rightarrow> spawnSubAgent_resume taskId sid agentName descr existing w1)"
  unfolding spawnSubAgent_def spawnSubAgent_resume_def by (rule refl)

lemma warning_only_for_relative_paths:
  assumes "startsWith (resolvedBase cfg) ''/''"
  shows "outsideBaseWarning cfg ''file'' (Some p) =
           (if p \<noteq> [] \<and> \<not> startsWith (replaceLeadingTilde p (homeOrTmp cfg)) ''/''
            then [WarnOutsideBase p] else [])"
proof -
  have "\<not> startsWith q (resolvedBase cfg)" if "\<not> startsWith q ''/''" for q
    using that assms by (cases q; cases "resolvedBase cfg") auto
  then show ?thesis
    by (auto simp: outsideBaseWarning_def truthy_def resolvedBase_def Let_def)
qed

lemma completeSubAgent_after_success:
  assumes ok: "fst (completeSubAgent cfg taskId sid agentName summary dels w) = Inr ()"
  shows "(\<exists>s \<in> set (sessions (snd (completeSubAgent cfg taskId sid agentName summary dels w))).
            openclaw_session_id s = sid) \<and>
         (\<forall>s \<in> set (sessions (snd (completeSubAgent cfg taskId sid agentName summary dels w))).
            openclaw_session_id s = sid \<longrightarrow>
              session_status s = ''completed'' \<and>
              ended_at s = Some (clock w (Suc (length (requests w))))) \<and>
         ((\<forall>s \<in> set (active_sessions w taskId). openclaw_session_id s = sid) \<longrightarrow>
            active_sessions (snd (completeSubAgent cfg taskId sid agentName summary dels w)) taskId = []) \<and>
         (\<not> faults w (length (requests w)) \<longrightarrow>
            completed_activities (snd (completeSubAgent cfg taskId sid agentName summary dels w)) taskId
              \<noteq> []) \<and>
         ((\<forall>k < length (case dels of None \<Rightarrow> [] | Some ds \<Rightarrow> ds).
              \<not> faults w (length (requests w) + 2 + k)) \<longrightarrow>
            deliverables (snd (completeSubAgent cfg taskId sid agentName summary dels w))
              = deliverables w @
                map (deliverable_of taskId) (case dels of None \<Rightarrow> [] | Some ds \<Rightarrow> ds))"
proof -
  define ds where "ds = (case dels of None \<Rightarrow> [] | Some ds \<Rightarrow> ds)"
  define w1 where "w1 = snd (logActivity taskId ''completed'' (agentName @ '' completed: '' @ summary)
                               None [(''sessionId'', sid)] (emitWarnings cfg ds w))"
  define e where "e = clock w (Suc (length (requests w)))"
  define f where "f = (\<lambda>s::SubAgentSession. if openclaw_session_id s = sid
                            then s\<lparr>session_status := ''completed'', ended_at := Some e\<rparr> else s)"
  define w2 where "w2 = w1\<lparr>requests := requests w @ [(POST, activitiesUrl taskId), (PATCH, sessionUrl sid)],
                          sessions := map f (sessions w)\<rparr>"
  define w3 where "w3 = snd (registerDeliverables taskId ds w2)"
  from completeSubAgent_ok_world[OF ok]
  have found: "find (\<lambda>s. openclaw_session_id s = sid) (sessions w) \<noteq> None"
    and res: "snd (completeSubAgent cfg taskId sid agentName summary dels w) = w3"
    unfolding w3_def w2_def w1_def ds_def f_def e_def by blast+
  have w1: "faults w1 = faults w" "deliverables w1 = deliverables w"
    unfolding w1_def by (simp_all add: logActivity_frame emitWarnings_frame)
  have sess: "sessions w3 = map f (sessions w)"
    unfolding w3_def using registerDeliverables_frame[of taskId ds w2] by (simp add: w2_def)
  have acts: "activities w3 = activities w1"
    unfolding w3_def using registerDeliverables_frame[of taskId ds w2] by (simp add: w2_def)
  have c1: "\<exists>s \<in> set (sessions w3). openclaw_session_id s = sid"
  proof -
    from found obtain s0 where "find (\<lambda>s. openclaw_session_id s = sid) (sessions w) = Some s0"
      by auto
    then have s0: "s0 \<in> set (sessions w)" "openclaw_session_id s0 = sid"
      by (auto simp: find_Some_iff in_set_conv_nth)
    have "f s0 \<in> set (sessions w3)" unfolding sess using s0(1) by simp
    moreover have "openclaw_session_id (f s0) = sid" using s0(2) by (simp add: f_def)
    ultimately show ?thesis by blast
  qed
  have c2: "\<forall>s \<in> set (sessions w3). openclaw_session_id s = sid \<longrightarrow>
              session_status s = ''completed'' \<and> ended_at s = Some e"
    unfolding sess f_def using completed_map_props by blast
  have c3: "active_sessions w3 taskId = []"
    if "\<forall>s \<in> set (active_sessions w taskId). openclaw_session_id s = sid"
    using active_sessions_after_complete[OF that, of e]
    unfolding active_sessions_def[of w3] sess f_def .
  have c4: "completed_activities w3 taskId \<noteq> []" if "\<not> faults w (length (requests w))"
    using that unfolding completed_activities_def acts w1_def
    by (simp add: logActivity_eq emitWarnings_frame)
  have c5: "deliverables w3 = deliverables w @ map (deliverable_of taskId) ds"
    if "\<forall>k < length ds. \<not> faults w (length (requests w) + 2 + k)"
  proof -
    have "\<forall>k < length ds. \<not> faults w2 (length (requests w2) + k)"
      using that by (simp add: w1 w2_def)
    from registerDeliverables_registers[OF this] show ?thesis by (simp add: w1 w2_def w3_def)
  qed
  from c1 c2 c3 c4 c5 show ?thesis unfolding res ds_def[symmetric] e_def[symmetric] by blast
qed


section \<open>The lifecycle order (C1)\<close>

text \<open>
  C1. For every ordered pair of the six statuses inbox, assigned, in_progress, testing,
  review and done, both have a position in the fixed lifecycle order and
  \<open>isValidTransition from to\<close> is true exactly when the position of \<open>to\<close> is strictly
  greater than the position of \<open>from\<close>.
\<close>

theorem isValidTransition_iff_later_index:
  assumes "from \<in> {''inbox'', ''assigned'', ''in_progress'', ''testing'', ''review'', ''done''}"
    and "to \<in> {''inbox'', ''assigned'', ''in_progress'', ''testing'', ''review'', ''done''}"
  shows "\<exists>i j. lifecycle_index from = Some i \<and> lifecycle_index to = Some j \<and>
           (isValidTransition from to \<longleftrightarrow> i < j)"
proof -
  from assms(1) obtain i where i: "lifecycle_index from = Some i"
    by (auto simp: lifecycle_index_def)
  from assms(2) obtain j where j: "lifecycle_index to = Some j"
    by (auto simp: lifecycle_index_def)
  have "isValidTransition from to \<longleftrightarrow> i < j"
    by (simp add: isValidTransition_strictly_later strictly_later_def i j)
  with i j show ?thesis by blast
qed

theorem isValidTransition_iff_later_index_witness:
  "isValidTransition ''assigned'' ''review'' \<and> \<not> isValidTransition ''review'' ''in_progress''
   \<and> \<not> isValidTransition ''testing'' ''testing''"
  using isValidTransition_iff_later_index [of "''assigned''" "''review''"]
    isValidTransition_iff_later_index [of "''review''" "''in_progress''"]
    isValidTransition_iff_later_index [of "''testing''" "''testing''"]
  by (simp add: lifecycle_index_def)

section \<open>The path sandbox (C4)\<close>

text \<open>
  C4. For every candidate and task id, \<open>safePath\<close> returns a path that starts with the
  configured root (the base with its home-relative notation expanded). It expands a leading
  tilde of the candidate to the home directory; when the expanded candidate starts with the
  root it is returned as it is, so a candidate that starts with the root and is not
  home-relative comes back unchanged; otherwise the result is \<open>{root}/{taskId}/\<close>. The
  function is total: it never fails.
\<close>

theorem safePath_always_under_root:
  "startsWith (safePath cfg candidate taskId) (resolvedBase cfg) \<and>
   (startsWith (replaceLeadingTilde candidate (homeOrTmp cfg)) (resolvedBase cfg) \<longrightarrow>
      safePath cfg candidate taskId = replaceLeadingTilde candidate (homeOrTmp cfg)) \<and>
   (CHR ''$'' \<notin> set (homeOrTmp cfg) \<and> startsWith (homeOrTmp cfg @ rest) (resolvedBase cfg) \<longrightarrow>
      safePath cfg (CHR ''~'' # rest) taskId = homeOrTmp cfg @ rest) \<and>
   (startsWith candidate (resolvedBase cfg) \<and> \<not> startsWith candidate ''~'' \<longrightarrow>
      safePath cfg candidate taskId = candidate) \<and>
   (\<not> startsWith (replaceLeadingTilde candidate (homeOrTmp cfg)) (resolvedBase cfg) \<longrightarrow>
      safePath cfg candidate taskId = resolvedBase cfg @ ''/'' @ taskId @ ''/'')"
proof (intro conjI impI)
  show "startsWith (safePath cfg candidate taskId) (resolvedBase cfg)"
    by (rule safePath_prefix)
next
  assume "startsWith (replaceLeadingTilde candidate (homeOrTmp cfg)) (resolvedBase cfg)"
  then show "safePath cfg candidate taskId = replaceLeadingTilde candidate (homeOrTmp cfg)"
    by (simp add: safePath_def)
next
  assume "CHR ''$'' \<notin> set (homeOrTmp cfg) \<and> startsWith (homeOrTmp cfg @ rest) (resolvedBase cfg)"
  then show "safePath cfg (CHR ''~'' # rest) taskId = homeOrTmp cfg @ rest"
    by (simp add: safePath_def replaceLeadingTilde_expand)
next
  assume "startsWith candidate (resolvedBase cfg) \<and> \<not> startsWith candidate ''~''"
  then show "safePath cfg candidate taskId = candidate"
    by (simp add: safePath_def replaceLeadingTilde_no_tilde)
next
  assume "\<not> startsWith (replaceLeadingTilde candidate (homeOrTmp cfg)) (resolvedBase cfg)"
  then show "safePath cfg candidate taskId = resolvedBase cfg @ ''/'' @ taskId @ ''/''"
    by (simp add: safePath_def)
qed

theorem safePath_always_under_root_witness:
  "safePath \<lparr>PROJECTS_BASE = ''~/projects'', HOME = Some ''/home/u''\<rparr> ''../../etc'' ''T1''
     = ''/home/u/projects/T1/'' \<and>
   safePath \<lparr>PROJECTS_BASE = ''~/projects'', HOME = Some ''/home/u''\<rparr> ''~/projects/T1/out'' ''T1''
     = ''/home/u/projects/T1/out'' \<and>
   safePath \<lparr>PROJECTS_BASE = ''~/projects'', HOME = Some ''/home/u''\<rparr> ''/home/u/projects/a'' ''T1''
     = ''/home/u/projects/a'' \<and>
   safePath \<lparr>PROJECTS_BASE = ''~/projects'', HOME = Some ''/home/u''\<rparr>
       ''/home/u/projects/../../etc'' ''T1''
     = ''/home/u/projects/../../etc''"
  using safePath_always_under_root
          [of "\<lparr>PROJECTS_BASE = ''~/projects'', HOME = Some ''/home/u''\<rparr>" "''../../etc''" "''T1''" "[]"]
        safePath_always_under_root
          [of "\<lparr>PROJECTS_BASE = ''~/projects'', HOME = Some ''/home/u''\<rparr>" "''~/projects/T1/out''"
              "''T1''" "''/projects/T1/out''"]
        safePath_always_under_root
          [of "\<lparr>PROJECTS_BASE = ''~/projects'', HOME = Some ''/home/u''\<rparr>" "''/home/u/projects/a''"
              "''T1''" "[]"]
        safePath_always_under_root
          [of "\<lparr>PROJECTS_BASE = ''~/projects'', HOME = Some ''/home/u''\<rparr>"
              "''/home/u/projects/../../etc''" "''T1''" "[]"]
  by (simp add: resolvedBase_def homeOrTmp_def replaceLeadingTilde_def)

section \<open>Status transitions (C6, C5)\<close>

text \<open>
  C6. For every task id and target status, \<open>transitionStatus\<close> first fetches the task
  from the store (it has no parameter for a status the caller believes in), and whenever the
  target is not strictly later than the status the store holds it rejects with
  \<open>InvalidTransition\<close> carrying both the current status and the target, having issued no
  request but that fetch: no status update reaches the store.
\<close>

theorem transitionStatus_rejects_non_forward:
  "prefix (requests w @ [(GET, taskUrl taskId)])
      (requests (snd (transitionStatus taskId newStatus agentId w))) \<and>
   (\<not> faults w (length (requests w)) \<and> stored_task w taskId = Some t \<and>
    \<not> strictly_later (task_status t) newStatus \<longrightarrow>
      transitionStatus taskId newStatus agentId w =
        (Inl (InvalidTransition (task_status t) newStatus),
         w\<lparr>requests := requests w @ [(GET, taskUrl taskId)]\<rparr>))"
  using transitionStatus_first_request transitionStatus_rejects_eq by blast

theorem transitionStatus_rejects_non_forward_witness:
  "fst (transitionStatus ''T3'' ''in_progress'' None
          (mk_world [mk_task ''T3'' ''review''] [] [] [] no_faults))
     = Inl (InvalidTransition ''review'' ''in_progress'') \<and>
   requests (snd (transitionStatus ''T3'' ''in_progress'' None
          (mk_world [mk_task ''T3'' ''review''] [] [] [] no_faults)))
     = [(GET, ''/api/tasks/T3'')] \<and>
   tasks (snd (transitionStatus ''T3'' ''in_progress'' None
          (mk_world [mk_task ''T3'' ''review''] [] [] [] no_faults)))
     = [mk_task ''T3'' ''review'']"
  using transitionStatus_rejects_non_forward
          [where w = "mk_world [mk_task ''T3'' ''review''] [] [] [] no_faults"
             and taskId = "''T3''" and newStatus = "''in_progress''" and agentId = None
             and t = "mk_task ''T3'' ''review''"]
  by (simp add: mk_world_def mk_task_def no_faults_def stored_task_def strictly_later_def
        lifecycle_index_def taskUrl_def)

text \<open>
  C5. \<open>moveToReview\<close> fails with \<open>PreconditionFailed\<close> when no deliverable is registered
  for the task, and the content of the store, the task's status included, stays as it was.
  When at least one deliverable is registered, the task's current status is strictly before
  review and the store answers the three requests of the call, it succeeds and the store
  holds the task with status review.
\<close>

theorem moveToReview_needs_deliverable:
  "(registered_deliverables w taskId = [] \<longrightarrow>
      fst (moveToReview taskId w) = Inl PreconditionFailed \<and>
      store_content (snd (moveToReview taskId w)) = store_content w) \<and>
   (registered_deliverables w taskId \<noteq> [] \<and> stored_task w taskId = Some t \<and>
    strictly_later (task_status t) ''review'' \<and>
    \<not> faults w (length (requests w)) \<and> \<not> faults w (length (requests w) + 1) \<and>
    \<not> faults w (length (requests w) + 2) \<longrightarrow>
      fst (moveToReview taskId w) = Inr (t\<lparr>task_status := ''review''\<rparr>) \<and>
      stored_task (snd (moveToReview taskId w)) taskId = Some (t\<lparr>task_status := ''review''\<rparr>))"
proof -
  have none: "fst (moveToReview taskId w) = Inl PreconditionFailed \<and>
      store_content (snd (moveToReview taskId w)) = store_content w"
    if "registered_deliverables w taskId = []"
    using that by (simp add: moveToReview_def getDeliverables_eq store_content_def)
  have some: "fst (moveToReview taskId w) = Inr (t\<lparr>task_status := ''review''\<rparr>) \<and>
      stored_task (snd (moveToReview taskId w)) taskId = Some (t\<lparr>task_status := ''review''\<rparr>)"
    if a: "registered_deliverables w taskId \<noteq> []" "stored_task w taskId = Some t"
      "strictly_later (task_status t) ''review''"
      "\<not> faults w (length (requests w))" "\<not> faults w (length (requests w) + 1)"
      "\<not> faults w (length (requests w) + 2)"
  proof -
    let ?w1 = "w\<lparr>requests := requests w @ [(GET, deliverablesUrl taskId)]\<rparr>"
    have m: "moveToReview taskId w = transitionStatus taskId ''review'' None ?w1"
      using a by (simp add: moveToReview_def getDeliverables_eq)
    have t: "transitionStatus taskId ''review'' None ?w1 =
        (Inr (t\<lparr>task_status := ''review''\<rparr>),
         ?w1\<lparr>requests := requests ?w1 @ [(GET, taskUrl taskId), (PATCH, taskUrl taskId)],
            tasks := map (\<lambda>x. if task_ident x = taskId then x\<lparr>task_status := ''review''\<rparr> else x)
                           (tasks ?w1)\<rparr>)"
      using a by (intro transitionStatus_accepts_eq) (simp_all add: stored_task_def)
    show ?thesis
      unfolding m t using a by (simp add: stored_task_def find_map_status)
  qed
  from none some show ?thesis by blast
qed


theorem moveToReview_needs_deliverable_witness:
  "fst (moveToReview ''T2'' (mk_world [mk_task ''T2'' ''in_progress''] [] [] [] no_faults))
     = Inl PreconditionFailed \<and>
   tasks (snd (moveToReview ''T2'' (mk_world [mk_task ''T2'' ''in_progress''] [] [] [] no_faults)))
     = [mk_task ''T2'' ''in_progress''] \<and>
   fst (moveToReview ''T2''
          (mk_world [mk_task ''T2'' ''in_progress''] [] []
             [mk_deliverable ''T2'' ''/home/u/projects/T2/out.html''] no_faults))
     = Inr (mk_task ''T2'' ''review'') \<and>
   stored_task (snd (moveToReview ''T2''
          (mk_world [mk_task ''T2'' ''in_progress''] [] []
             [mk_deliverable ''T2'' ''/home/u/projects/T2/out.html''] no_faults))) ''T2''
     = Some (mk_task ''T2'' ''review'')"
  using moveToReview_needs_deliverable
          [where w = "mk_world [mk_task ''T2'' ''in_progress''] [] [] [] no_faults"
             and taskId = "''T2''" and t = "mk_task ''T2'' ''in_progress''"]
        moveToReview_needs_deliverable
          [where w = "mk_world [mk_task ''T2'' ''in_progress''] [] []
                        [mk_deliverable ''T2'' ''/home/u/projects/T2/out.html''] no_faults"
             and taskId = "''T2''" and t = "mk_task ''T2'' ''in_progress''"]
  by (simp add: mk_world_def mk_task_def mk_deliverable_def no_faults_def stored_task_def
        strictly_later_def lifecycle_index_def registered_deliverables_def store_content_def)

section \<open>Deliverable reads (C7)\<close>




section \<open>End-state auditor (C3)\<close>

text \<open>
  C3, as stated: \<open>ready\<close> is the conjunction of the five sub-checks. It is not: for a task
  that is done, with a deliverable, no active session and a completion activity,
  \<open>statusIsReview\<close> is false and \<open>ready\<close> is true.
\<close>

theorem endStateCheck_ready_counterexample:
  "fst (endStateCheck ''T1'' done_world) =
     Inr \<lparr>allDeliverablesExist = True, deliverablesRegistered = True, sessionsCompleted = True,
          completionActivityLogged = True, statusIsReview = False, ready = True, issues = []\<rparr>"
  by (simp add: endStateCheck_def getDeliverables_eq getSessions_eq getActivities_eq getTask_eq
      Let_def stored_task_def done_world_def mk_world_def mk_task_def mk_session_def
      mk_activity_def mk_deliverable_def no_faults_def registered_deliverables_def)


text \<open>
  C3, amended. For every report that \<open>endStateCheck\<close> returns, \<open>allDeliverablesExist\<close>
  is true and \<open>ready\<close> equals \<open>deliverablesRegistered\<close> and \<open>sessionsCompleted\<close> and
  \<open>completionActivityLogged\<close> and (\<open>statusIsReview\<close> or the task's status is done); so
  \<open>ready\<close> is the conjunction of the five sub-checks whenever the task is not done.
\<close>

theorem endStateCheck_ready:
  assumes "fst (endStateCheck taskId w) = Inr r"
  shows "\<exists>t. stored_task w taskId = Some t \<and>
     allDeliverablesExist r \<and>
     statusIsReview r = (task_status t = ''review'') \<and>
     ready r = (deliverablesRegistered r \<and> sessionsCompleted r \<and> completionActivityLogged r \<and>
                (statusIsReview r \<or> task_status t = ''done'')) \<and>
     (task_status t \<noteq> ''done'' \<longrightarrow>
        ready r = (allDeliverablesExist r \<and> deliverablesRegistered r \<and> sessionsCompleted r \<and>
                   completionActivityLogged r \<and> statusIsReview r))"
proof -
  obtain r1 w1 where g1: "getDeliverables taskId w = (r1, w1)" by (cases "getDeliverables taskId w")
  obtain r2 w2 where g2: "getSessions taskId w1 = (r2, w2)" by (cases "getSessions taskId w1")
  obtain r3 w3 where g3: "getActivities taskId w2 = (r3, w3)" by (cases "getActivities taskId w2")
  obtain r4 w4 where g4: "getTask taskId w3 = (r4, w4)" by (cases "getTask taskId w3")
  from assms obtain t where t: "r4 = Inr t"
    by (auto simp: endStateCheck_def g1 g2 g3 g4 Let_def split: sum.splits)
  have "tasks w3 = tasks w"
    using reads_keep_tasks(1)[of taskId w] reads_keep_tasks(2)[of taskId w1]
      reads_keep_tasks(3)[of taskId w2] by (simp add: g1 g2 g3)
  with getTask_InrD[of taskId w3 t] have st: "stored_task w taskId = Some t"
    by (simp add: g4 t stored_task_def)
  from assms have
    "allDeliverablesExist r \<and>
     statusIsReview r = (task_status t = ''review'') \<and>
     ready r = (deliverablesRegistered r \<and> sessionsCompleted r \<and> completionActivityLogged r \<and>
                (statusIsReview r \<or> task_status t = ''done''))"
    by (auto simp: endStateCheck_def g1 g2 g3 g4 t Let_def list_all_iff split: sum.splits)
  with st show ?thesis by auto
qed

theorem endStateCheck_ready_witness:
  "fst (endStateCheck ''T1''
     (mk_world [mk_task ''T1'' ''review''] [mk_session ''S1'' ''T1'' ''completed'']
       [mk_activity ''T1'' ''completed''] [mk_deliverable ''T1'' ''/home/u/projects/T1/out.html'']
       no_faults)) =
     Inr \<lparr>allDeliverablesExist = True, deliverablesRegistered = True, sessionsCompleted = True,
          completionActivityLogged = True, statusIsReview = True, ready = True, issues = []\<rparr> \<and>
   stored_task (mk_world [mk_task ''T1'' ''review''] [mk_session ''S1'' ''T1'' ''completed'']
       [mk_activity ''T1'' ''completed''] [mk_deliverable ''T1'' ''/home/u/projects/T1/out.html'']
       no_faults) ''T1'' = Some (mk_task ''T1'' ''review'')"
  using endStateCheck_ready
     [where taskId = "''T1''" and w = "mk_world [mk_task ''T1'' ''review''] [mk_session ''S1'' ''T1'' ''completed'']
       [mk_activity ''T1'' ''completed''] [mk_deliverable ''T1'' ''/home/u/projects/T1/out.html'']
       no_faults" and r = "\<lparr>allDeliverablesExist = True, deliverablesRegistered = True, sessionsCompleted = True,
          completionActivityLogged = True, statusIsReview = True, ready = True, issues = []\<rparr>"]
  by (simp add: endStateCheck_def getDeliverables_eq getSessions_eq getActivities_eq getTask_eq
      Let_def stored_task_def mk_world_def mk_task_def mk_session_def
      mk_activity_def mk_deliverable_def no_faults_def registered_deliverables_def)

section \<open>Preflight output directory (C8)\<close>

text \<open>
  C8. The documented priority for the output directory is dispatcher value, then task
  metadata value, then the default. For a task whose metadata names an output directory
  under the root and no dispatcher value, \<open>preflight\<close> returns the default
  \<open>{root}/{taskId}/\<close>, not the metadata's directory: the metadata is never read.
\<close>

theorem preflight_ignores_task_metadata:
  "fst (preflight example_cfg ''T1'' None metadata_world) =
     Inr \<lparr>task = (mk_task ''T1'' ''assigned'')\<lparr>metadata_outputDir := Some ''/home/u/projects/custom/''\<rparr>,
          status = ''assigned'', outputDir = ''/home/u/projects/T1/'', existingSessions = [],
          hasActiveSession = False, canStart = True,
          reason = Some (''Task is assigned '' @ emDash @
                         '' ready to start. Will PATCH to in_progress.'')\<rparr> \<and>
   documentedOutputDir example_cfg ''T1'' None
       ((mk_task ''T1'' ''assigned'')\<lparr>metadata_outputDir := Some ''/home/u/projects/custom/''\<rparr>)
     = ''/home/u/projects/custom/''"
  by (simp add: preflight_def getTask_eq getSessions_eq stored_task_def metadata_world_def
      mk_world_def mk_task_def no_faults_def example_cfg_def safePath_def resolvedBase_def
      homeOrTmp_def replaceLeadingTilde_def truthy_def statusPolicy_def documentedOutputDir_def)

section \<open>Registering deliverables (C10)\<close>

text \<open>
  C10. A file deliverable whose path does not resolve under the root is to draw a warning
  while it is still registered and the call returns normally. For the absolute path
  \<open>/etc/passwd\<close>, which is outside the root, \<open>logDeliverable\<close> registers the deliverable
  and writes nothing to the console; the path sandbox, given the same path, overrides it.
\<close>

theorem logDeliverable_absolute_path_unchecked:
  "console (snd (logDeliverable example_cfg ''T1'' ''file'' ''Passwords'' (Some ''/etc/passwd'') None
                   (mk_world [mk_task ''T1'' ''in_progress''] [] [] [] no_faults))) = [] \<and>
   deliverables (snd (logDeliverable example_cfg ''T1'' ''file'' ''Passwords'' (Some ''/etc/passwd'')
                        None (mk_world [mk_task ''T1'' ''in_progress''] [] [] [] no_faults)))
     = [mk_deliverable ''T1'' ''/etc/passwd''\<lparr>title := ''Passwords''\<rparr>] \<and>
   \<not> startsWith ''/etc/passwd'' (resolvedBase example_cfg) \<and>
   safePath example_cfg ''/etc/passwd'' ''T1'' = ''/home/u/projects/T1/''"
  by (simp add: logDeliverable_eq mk_world_def no_faults_def outsideBaseWarning_def truthy_def
      example_cfg_def resolvedBase_def homeOrTmp_def replaceLeadingTilde_def safePath_def
      mk_deliverable_def)

text \<open>
  What holds of every call: it returns normally and issues the registration request, and
  when the store answers the deliverable is registered. The warning is written for a file
  with a non-empty path that, after expansion of a leading tilde, starts neither with the
  root nor with a slash. With a root that is an absolute path the comparison with the root
  decides nothing: the warning is written exactly for the paths that do not start with a
  slash.
\<close>

lemma logDeliverable_never_fails:
  "fst (logDeliverable cfg taskId dtype ttl pth descr w) = Inr () \<and>
   requests (snd (logDeliverable cfg taskId dtype ttl pth descr w))
     = requests w @ [(POST, deliverablesUrl taskId)] \<and>
   (\<not> faults w (length (requests w)) \<longrightarrow>
      deliverables (snd (logDeliverable cfg taskId dtype ttl pth descr w))
        = deliverables w @ [\<lparr>deliverable_task_id = taskId, deliverable_type = dtype, title = ttl,
                              path = pth, description = descr\<rparr>]) \<and>
   (dtype = ''file'' \<and> pth = Some p \<and> p \<noteq> [] \<and>
    \<not> startsWith (replaceLeadingTilde p (homeOrTmp cfg)) (resolvedBase cfg) \<and>
    \<not> startsWith (replaceLeadingTilde p (homeOrTmp cfg)) ''/'' \<longrightarrow>
      WarnOutsideBase p \<in> set (console (snd (logDeliverable cfg taskId dtype ttl pth descr w)))) \<and>
   (pth = Some p \<and> startsWith (replaceLeadingTilde p (homeOrTmp cfg)) ''/'' \<longrightarrow>
      WarnOutsideBase p \<notin> set (drop (length (console w))
         (console (snd (logDeliverable cfg taskId dtype ttl pth descr w)))))"
  by (simp add: logDeliverable_eq outsideBaseWarning_def truthy_def resolvedBase_def Let_def)

section \<open>Completing a sub-agent (C9)\<close>

text \<open>
  C9, as stated: after \<open>completeSubAgent\<close> returns successfully the task has at least one
  activity of type completed, every supplied deliverable is registered and the task has no
  active session. None of the three follows. The activity and the deliverables are written
  best-effort: when the store fails the activity request, or a deliverable request, the call
  still returns successfully and the activity, or the deliverable, is missing. And the call
  completes the session it is given, whatever task that session belongs to: given a session
  of another task, it returns successfully and the task's own session stays active.
\<close>

theorem completeSubAgent_best_effort_counterexample:
  "fst (completeSubAgent example_cfg ''T1'' ''S1'' ''Developer'' ''done'' None dangling_world) = Inr () \<and>
   completed_activities
     (snd (completeSubAgent example_cfg ''T1'' ''S1'' ''Developer'' ''done'' None dangling_world)) ''T1''
     = [] \<and>
   fst (completeSubAgent example_cfg ''T1'' ''S1'' ''Developer'' ''done'' (Some [component_file])
          deliverable_fault_world) = Inr () \<and>
   deliverables
     (snd (completeSubAgent example_cfg ''T1'' ''S1'' ''Developer'' ''done'' (Some [component_file])
             deliverable_fault_world)) = [] \<and>
   fst (completeSubAgent example_cfg ''T1'' ''S9'' ''Developer'' ''done'' None two_task_world) = Inr () \<and>
   active_sessions
     (snd (completeSubAgent example_cfg ''T1'' ''S9'' ''Developer'' ''done'' None two_task_world)) ''T1''
     = [mk_session ''S1'' ''T1'' ''active'']"
  by (simp add: completeSubAgent_def logActivity_eq patchSession_eq registerDeliverable_eq
      emitWarnings_def dangling_world_def deliverable_fault_world_def two_task_world_def
      mk_world_def mk_session_def fault_at_def no_faults_def completed_activities_def
      active_sessions_def component_file_def)

text \<open>
  C9, amended. \<open>completeSubAgent\<close> returns successfully exactly when the store answers the
  session update and holds a session with the given id: a failure of the activity request
  or of a deliverable request is swallowed and does not make the call fail. After a
  successful return the session named by the session id is marked completed with the
  timestamp of the call, and the task has no active session, provided every active session
  it had was that session. When the store answers the activity request the task has at
  least one activity of type completed, and when it answers the deliverable requests every
  supplied deliverable is registered, in order.
\<close>

theorem completeSubAgent_completes_session:
  "(fst (completeSubAgent cfg taskId sid agentName summary dels w) = Inr () \<longleftrightarrow>
      \<not> faults w (Suc (length (requests w))) \<and>
      (\<exists>s \<in> set (sessions w). openclaw_session_id s = sid)) \<and>
   (fst (completeSubAgent cfg taskId sid agentName summary dels w) = Inr () \<longrightarrow>
      (\<exists>s \<in> set (sessions (snd (completeSubAgent cfg taskId sid agentName summary dels w))).
            openclaw_session_id s = sid) \<and>
      (\<forall>s \<in> set (sessions (snd (completeSubAgent cfg taskId sid agentName summary dels w))).
            openclaw_session_id s = sid \<longrightarrow>
              session_status s = ''completed'' \<and>
              ended_at s = Some (clock w (Suc (length (requests w))))) \<and>
      ((\<forall>s \<in> set (active_sessions w taskId). openclaw_session_id s = sid) \<longrightarrow>
            active_sessions (snd (completeSubAgent cfg taskId sid agentName summary dels w)) taskId = []) \<and>
      (\<not> faults w (length (requests w)) \<longrightarrow>
            completed_activities (snd (completeSubAgent cfg taskId sid agentName summary dels w)) taskId
              \<noteq> []) \<and>
      ((\<forall>k < length (case dels of None \<Rightarrow> [] | Some ds \<Rightarrow> ds).
              \<not> faults w (length (requests w) + 2 + k)) \<longrightarrow>
            deliverables (snd (completeSubAgent cfg taskId sid agentName summary dels w))
              = deliverables w @
                map (deliverable_of taskId) (case dels of None \<Rightarrow> [] | Some ds \<Rightarrow> ds)))"
proof -
  have "(find (\<lambda>s. openclaw_session_id s = sid) (sessions w) \<noteq> None)
          = (\<exists>s \<in> set (sessions w). openclaw_session_id s = sid)"
    by (auto simp: find_None_iff)
  then have swallowed: "fst (completeSubAgent cfg taskId sid agentName summary dels w) = Inr () \<longleftrightarrow>
      \<not> faults w (Suc (length (requests w))) \<and>
      (\<exists>s \<in> set (sessions w). openclaw_session_id s = sid)"
    unfolding completeSubAgent_fst by (auto split: option.splits)
  from swallowed completeSubAgent_after_success[of cfg taskId sid agentName summary dels w]
  show ?thesis by blast
qed

theorem completeSubAgent_completes_session_witness:
  "fst (completeSubAgent example_cfg ''T1'' ''S1'' ''Developer'' ''built'' (Some [component_file])
          spawned_world) = Inr () \<and>
   active_sessions
     (snd (completeSubAgent example_cfg ''T1'' ''S1'' ''Developer'' ''built'' (Some [component_file])
             spawned_world)) ''T1'' = [] \<and>
   completed_activities
     (snd (completeSubAgent example_cfg ''T1'' ''S1'' ''Developer'' ''built'' (Some [component_file])
             spawned_world)) ''T1'' \<noteq> [] \<and>
   deliverables
     (snd (completeSubAgent example_cfg ''T1'' ''S1'' ''Developer'' ''built'' (Some [component_file])
             spawned_world)) = [deliverable_of ''T1'' component_file] \<and>
   fst (completeSubAgent example_cfg ''T1'' ''S1'' ''Developer'' ''built'' (Some [component_file])
          dangling_world) = Inr () \<and>
   fst (completeSubAgent example_cfg ''T1'' ''S1'' ''Developer'' ''built'' (Some [component_file])
          deliverable_fault_world) = Inr ()"
proof -
  note thm1 = completeSubAgent_completes_session
      [where cfg = example_cfg and taskId = "''T1''" and sid = "''S1''" and agentName = "''Developer''"
         and summary = "''built''" and dels = "Some [component_file]" and w = spawned_world]
  note thm2 = completeSubAgent_completes_session
      [where cfg = example_cfg and taskId = "''T1''" and sid = "''S1''" and agentName = "''Developer''"
         and summary = "''built''" and dels = "Some [component_file]" and w = dangling_world]
  note thm3 = completeSubAgent_completes_session
      [where cfg = example_cfg and taskId = "''T1''" and sid = "''S1''" and agentName = "''Developer''"
         and summary = "''built''" and dels = "Some [component_file]" and w = deliverable_fault_world]
  have hyps: "\<forall>s \<in> set (active_sessions spawned_world ''T1''). openclaw_session_id s = ''S1''"
    "\<not> faults spawned_world (length (requests spawned_world))"
    "\<not> faults spawned_world (Suc (length (requests spawned_world)))"
    "\<forall>k < length (case Some [component_file] of None \<Rightarrow> [] | Some ds \<Rightarrow> ds).
       \<not> faults spawned_world (length (requests spawned_world) + 2 + k)"
    "deliverables spawned_world = []"
    "\<exists>s \<in> set (sessions spawned_world). openclaw_session_id s = ''S1''"
    by (simp_all add: spawned_world_def mk_world_def mk_session_def no_faults_def
        active_sessions_def)
  have faulty: "\<not> faults dangling_world (Suc (length (requests dangling_world)))"
    "\<exists>s \<in> set (sessions dangling_world). openclaw_session_id s = ''S1''"
    "\<not> faults deliverable_fault_world (Suc (length (requests deliverable_fault_world)))"
    "\<exists>s \<in> set (sessions deliverable_fault_world). openclaw_session_id s = ''S1''"
    by (simp_all add: dangling_world_def deliverable_fault_world_def mk_world_def mk_session_def
        fault_at_def)
  from thm1 hyps have "fst (completeSubAgent example_cfg ''T1'' ''S1'' ''Developer'' ''built''
                   (Some [component_file]) spawned_world) = Inr ()" by blast
  with thm1 hyps thm2 thm3 faulty show ?thesis by simp
qed

text \<open>
  The order on the console: the warning of a deliverable is written while the requests are
  being issued, before the error of the failed activity request.
\<close>

lemma completeSubAgent_console_order:
  "console (snd (completeSubAgent example_cfg ''T1'' ''S1'' ''Developer'' ''done''
                   (Some [component_file\<lparr>d_path := Some ''out/Component.tsx''\<rparr>]) dangling_world))
     = [WarnOutsideBase ''out/Component.tsx'',
        ErrorLogActivity ''T1'' (HttpError POST (activitiesUrl ''T1'') 500)]"
  by (simp add: completeSubAgent_def logActivity_eq patchSession_eq registerDeliverable_eq
      emitWarnings_def dangling_world_def mk_world_def mk_session_def fault_at_def
      component_file_def outsideBaseWarning_def truthy_def example_cfg_def homeOrTmp_def
      replaceLeadingTilde_def)

section \<open>Spawning without duplicates (C2)\<close>








end
